theory Spec2Isabelle
  imports Complex_Main
begin

section \<open>Text and numbers as the program has them\<close>

text \<open>
  A Python \<^verbatim>\<open>str\<close> is a sequence of Unicode code points; \<^verbatim>\<open>len\<close>, \<^verbatim>\<open>startswith\<close>,
  \<^verbatim>\<open>strip\<close>, \<^verbatim>\<open>split\<close> and the \<^verbatim>\<open>re\<close> module all work on code points. A string is
  therefore a list of code points, each a natural number, and every literal of
  \<^verbatim>\<open>src/app.py\<close> is written out as its code points in hexadecimal
  (\<open>0x2B50\<close> is U+2B50, the filled star of line 184).

  The scores and times of a session are JSON numbers. They are modelled by their exact
  value, a rational; the counts are integers. The quotient \<^verbatim>\<open>total_time / 60\<close> of line
  197 is printed, so it is rounded to the nearest double as the float division does. The
  quotient \<^verbatim>\<open>score / 20\<close> of line 182 is only rounded to an integer and the product
  \<^verbatim>\<open>total_questions * 0.3\<close> of line 230 is only compared with an integer; both are
  taken exactly.
\<close>

type_synonym ustr = "nat list"

text \<open>Python's \<^verbatim>\<open>round(x)\<close> on a float: to the nearest integer, a tie to the even one.\<close>

definition py_round :: "rat \<Rightarrow> int" where
  "py_round x =
     (let f = \<lfloor>x\<rfloor>; r = x - of_int f
      in if r < 1 / 2 then f
         else if 1 / 2 < r then f + 1
         else if even f then f else f + 1)"

text \<open>
  A float division gives the double nearest to the exact quotient, a tie going to the
  even significand. \<open>halvings\<close> and \<open>doublings\<close> find the binary exponent \<open>e\<close> of a
  positive value, the one with \<open>2 ^ e \<le> a < 2 ^ (e + 1)\<close>; the value is then rounded
  to a multiple of \<open>2 ^ (e - 52)\<close>. The exponent is not bounded: overflow does not occur
  for the quotient of line 197, and a result below the normal range prints as \<^verbatim>\<open>0.0\<close>
  either way.
\<close>

function halvings :: "rat \<Rightarrow> nat" where
  "halvings x = (if x < 2 then 0 else Suc (halvings (x / 2)))"
  by pat_completeness auto
termination
proof (relation "measure (\<lambda>x. nat \<lfloor>x\<rfloor>)")
  show "wf (measure (\<lambda>x::rat. nat \<lfloor>x\<rfloor>))" by simp
next
  fix x :: rat
  assume a: "\<not> x < 2"
  have "x / 2 \<le> x - 1" using a by simp
  then have "\<lfloor>x / 2\<rfloor> \<le> \<lfloor>x - 1\<rfloor>" by (rule floor_mono)
  then have l: "\<lfloor>x / 2\<rfloor> \<le> \<lfloor>x\<rfloor> - 1" by simp
  have "2 \<le> \<lfloor>x\<rfloor>" using a by (simp add: le_floor_iff)
  then show "(x / 2, x) \<in> measure (\<lambda>x. nat \<lfloor>x\<rfloor>)"
    using l by simp
qed

declare halvings.simps [simp del]

function doublings :: "rat \<Rightarrow> nat" where
  "doublings x = (if x \<le> 0 \<or> 1 \<le> x then 0 else Suc (doublings (x * 2)))"
  by pat_completeness auto
termination
proof (relation "measure (\<lambda>x. nat \<lfloor>1 / x\<rfloor>)")
  show "wf (measure (\<lambda>x::rat. nat \<lfloor>1 / x\<rfloor>))" by simp
next
  fix x :: rat
  assume a: "\<not> (x \<le> 0 \<or> 1 \<le> x)"
  then have p: "0 < x" "x < 1" by simp_all
  let ?z = "1 / x"
  have z: "1 < ?z" using p by simp
  have h: "1 / (x * 2) = ?z / 2" by simp
  have lt: "\<lfloor>?z / 2\<rfloor> < \<lfloor>?z\<rfloor>"
  proof (cases "?z < 2")
    case True
    then have "\<lfloor>?z / 2\<rfloor> \<le> 0" using z by (simp add: floor_le_iff)
    moreover have "1 \<le> \<lfloor>?z\<rfloor>" using z by (simp add: le_floor_iff)
    ultimately show ?thesis by linarith
  next
    case False
    then have "?z / 2 \<le> ?z - 1" by simp
    then have "\<lfloor>?z / 2\<rfloor> \<le> \<lfloor>?z - 1\<rfloor>" by (rule floor_mono)
    then show ?thesis by simp
  qed
  have pos: "0 < \<lfloor>?z\<rfloor>" using z by (simp add: less_floor_iff)
  have "nat \<lfloor>?z / 2\<rfloor> < nat \<lfloor>?z\<rfloor>"
    using lt pos by linarith
  then show "(x * 2, x) \<in> measure (\<lambda>x. nat \<lfloor>1 / x\<rfloor>)"
    unfolding in_measure h .
qed

declare doublings.simps [simp del]

definition pow2 :: "int \<Rightarrow> rat" where
  "pow2 e = (if 0 \<le> e then 2 ^ nat e else 1 / 2 ^ nat (- e))"

definition round_to_double :: "rat \<Rightarrow> rat" where
  "round_to_double x =
     (if x = 0 then 0
      else (let a = \<bar>x\<bar>;
                e = (if 1 \<le> a then int (halvings a) else - int (doublings a));
                u = pow2 (e - 52)
            in sgn x * of_int (py_round (a / u)) * u))"

section \<open>The star rating (\<^verbatim>\<open>get_star_rating\<close>, lines 181 to 184)\<close>

definition filled_glyph :: nat where "filled_glyph = 0x2B50"
definition empty_glyph :: nat where "empty_glyph = 0x2606"

definition filled_stars :: "rat \<Rightarrow> int" where
  "filled_stars score = max 1 (min 5 (py_round (score / 20)))"

definition empty_stars :: "rat \<Rightarrow> int" where
  "empty_stars score = 5 - filled_stars score"

text \<open>
  \<^verbatim>\<open>"x" * n\<close> is the empty string when \<^verbatim>\<open>n\<close> is not positive, which is what
  \<^const>\<open>replicate\<close> gives on \<open>nat n\<close>.
\<close>

definition get_star_rating :: "rat \<Rightarrow> ustr" where
  "get_star_rating score =
     replicate (nat (filled_stars score)) filled_glyph
     @ replicate (nat (empty_stars score)) empty_glyph"


section \<open>String operations of Python used by the program\<close>

text \<open>
  \<^verbatim>\<open>str.strip()\<close> removes the leading and trailing characters for which
  \<^verbatim>\<open>str.isspace\<close> holds: U+0009 to U+000D, U+001C to U+0020, U+0085, U+00A0, U+1680,
  U+2000 to U+200A, U+2028, U+2029, U+202F, U+205F and U+3000.
\<close>

definition py_isspace :: "nat \<Rightarrow> bool" where
  "py_isspace c \<longleftrightarrow>
     (0x9 \<le> c \<and> c \<le> 0xD) \<or> (0x1C \<le> c \<and> c \<le> 0x20) \<or> c = 0x85 \<or> c = 0xA0 \<or> c = 0x1680
     \<or> (0x2000 \<le> c \<and> c \<le> 0x200A) \<or> c = 0x2028 \<or> c = 0x2029 \<or> c = 0x202F
     \<or> c = 0x205F \<or> c = 0x3000"

definition lstrip :: "ustr \<Rightarrow> ustr" where
  "lstrip s = dropWhile py_isspace s"

definition rstrip :: "ustr \<Rightarrow> ustr" where
  "rstrip s = rev (dropWhile py_isspace (rev s))"

definition strip :: "ustr \<Rightarrow> ustr" where
  "strip s = rstrip (lstrip s)"

text \<open>\<^verbatim>\<open>s.startswith(p)\<close>.\<close>

fun startswith :: "ustr \<Rightarrow> ustr \<Rightarrow> bool" where
  "startswith s [] = True"
| "startswith [] (p # ps) = False"
| "startswith (c # s) (p # ps) = (c = p \<and> startswith s ps)"

text \<open>\<^verbatim>\<open>p in s\<close>: the string \<open>p\<close> occurs in \<open>s\<close>.\<close>

fun contains :: "ustr \<Rightarrow> ustr \<Rightarrow> bool" where
  "contains [] p = (p = [])"
| "contains (c # s) p = (startswith (c # s) p \<or> contains s p)"

text \<open>
  \<^verbatim>\<open>s.replace(p, '')\<close>: every occurrence of \<open>p\<close>, found from left to right without
  overlap, is removed. With an empty \<open>p\<close> Python returns \<open>s\<close>.
\<close>

function remove_all :: "ustr \<Rightarrow> ustr \<Rightarrow> ustr" where
  "remove_all p s =
     (if p = [] \<or> s = [] then s
      else if startswith s p then remove_all p (drop (length p) s)
      else hd s # remove_all p (tl s))"
  by pat_completeness auto
termination
  by (relation "measure (\<lambda>(p, s). length s)") auto

declare remove_all.simps [simp del]

text \<open>\<^verbatim>\<open>s.split('\n')\<close>: the pieces between line feeds; never an empty list.\<close>

definition newline :: nat where "newline = 0xA"

fun split_lines :: "ustr \<Rightarrow> ustr list" where
  "split_lines [] = [[]]"
| "split_lines (c # cs) =
     (if c = newline then [] # split_lines cs
      else (case split_lines cs of [] \<Rightarrow> [[c]] | l # ls \<Rightarrow> (c # l) # ls))"

text \<open>
  Decimal output. \<^verbatim>\<open>f"{n}"\<close> of an integer is its decimal numeral, with a minus
  sign when negative. \<^verbatim>\<open>f"{x:.1f}"\<close> is the value rounded to one decimal, a tie to the
  even digit, with a minus sign when the value is negative.
\<close>

function str_nat :: "nat \<Rightarrow> ustr" where
  "str_nat n = (if n < 10 then [0x30 + n] else str_nat (n div 10) @ [0x30 + n mod 10])"
  by pat_completeness auto
termination
  by (relation "measure id") auto

declare str_nat.simps [simp del]

definition str_int :: "int \<Rightarrow> ustr" where
  "str_int i = (if i < 0 then 0x2D # str_nat (nat (- i)) else str_nat (nat i))"

definition fmt_1f :: "rat \<Rightarrow> ustr" where
  "fmt_1f x =
     (let n = nat (py_round (\<bar>x\<bar> * 10))
      in (if x < 0 then [0x2D] else []) @ str_nat (n div 10) @ [0x2E] @ str_nat (n mod 10))"

section \<open>The scored session\<close>

text \<open>
  The session is the dictionary that \<^verbatim>\<open>generate_fake_data\<close> builds and that
  \<^verbatim>\<open>unity_notify\<close> receives as JSON. Its entry \<^verbatim>\<open>totalQuestions\<close> is either the lambda
  of line 161, which adds the three counts of the dictionary it is given, or a number.
\<close>

datatype total_questions = Callable | Number int

record session =
  totalTime :: rat
  attitudeScore :: rat
  effectivenessScore :: rat
  concentrationScore :: rat
  correctCount :: int
  wrongCount :: int
  unansweredCount :: int
  totalQuestions :: total_questions
  avgAnswerTime :: rat

text \<open>
  \<^verbatim>\<open>generate_fake_data\<close> (lines 152 to 163): the eight random draws are parameters.
\<close>

definition generate_fake_data ::
  "rat \<Rightarrow> rat \<Rightarrow> rat \<Rightarrow> rat \<Rightarrow> int \<Rightarrow> int \<Rightarrow> int \<Rightarrow> rat \<Rightarrow> session" where
  "generate_fake_data tt att eff con c w u avg =
     \<lparr>totalTime = tt, attitudeScore = att, effectivenessScore = eff,
      concentrationScore = con, correctCount = c, wrongCount = w, unansweredCount = u,
      totalQuestions = Callable, avgAnswerTime = avg\<rparr>"

section \<open>The literals of the composer (lines 186 to 244)\<close>

text \<open>
  Each literal is given without its line feeds and without its placeholders; the composer
  below puts them back in place.
\<close>

definition report_title :: ustr where \<comment> \<open>line 186\<close>
  "report_title =
     [0x1F393, 0x20, 0x5B78, 0x7FD2, 0x5831, 0x544A, 0x51FA, 0x7210, 0x5566, 0xFF01]"

definition attitude_head :: ustr where \<comment> \<open>line 189\<close>
  "attitude_head =
     [0x2776, 0x5B78, 0x7FD2, 0x614B, 0x5EA6]"

definition score_open :: ustr where \<comment> \<open>line 189\<close>
  "score_open =
     [0x20, 0x28]"

definition score_close :: ustr where \<comment> \<open>line 189\<close>
  "score_close =
     [0x5206, 0x29]"

definition attitude_remark_high :: ustr where \<comment> \<open>line 191\<close>
  "attitude_remark_high =
     [0x1F31F, 0x20, 0x8D85, 0x68D2, 0xFF01, 0x4F60, 0x7684, 0x5C08, 0x6CE8, 0x529B,
      0x50CF, 0x96F7, 0x5C04, 0x4E00, 0x6A23, 0x96C6, 0x4E2D, 0xFF01]"

definition attitude_remark_mid :: ustr where \<comment> \<open>line 193\<close>
  "attitude_remark_mid =
     [0x1F44D, 0x20, 0x4E0D, 0x932F, 0x5594, 0xFF01, 0x4FDD, 0x6301, 0x9019, 0x500B,
      0x7BC0, 0x594F, 0x7E7C, 0x7E8C, 0x52A0, 0x6CB9, 0xFF01]"

definition attitude_remark_low :: ustr where \<comment> \<open>line 195\<close>
  "attitude_remark_low =
     [0x1F914, 0x20, 0x4F3C, 0x4E4E, 0x6709, 0x9EDE, 0x5206, 0x5FC3, 0x5462, 0xFF0C,
      0x8A66, 0x8457, 0x627E, 0x500B, 0x66F4, 0x5B89, 0x975C, 0x7684, 0x74B0, 0x5883,
      0x5427, 0xFF01]"

definition total_time_label :: ustr where \<comment> \<open>line 197\<close>
  "total_time_label =
     [0x23F0, 0x20, 0x7E3D, 0x5B78, 0x7FD2, 0x6642, 0x9593, 0xFF1A]"

definition total_time_unit :: ustr where \<comment> \<open>line 197\<close>
  "total_time_unit =
     [0x5206, 0x9418]"

definition effectiveness_head :: ustr where \<comment> \<open>line 200\<close>
  "effectiveness_head =
     [0x2777, 0x5B78, 0x7FD2, 0x6210, 0x6548]"

definition effectiveness_remark_top :: ustr where \<comment> \<open>line 202\<close>
  "effectiveness_remark_top =
     [0x1F3C6, 0x20, 0x592A, 0x53B2, 0x5BB3, 0x4E86, 0xFF01, 0x4F60, 0x662F, 0x5B78,
      0x9738, 0x672C, 0x9738, 0xFF01]"

definition effectiveness_remark_good :: ustr where \<comment> \<open>line 204\<close>
  "effectiveness_remark_good =
     [0x2728, 0x20, 0x8868, 0x73FE, 0x5F88, 0x597D, 0xFF01, 0x518D, 0x63A5, 0x518D,
      0x53B2, 0x5C31, 0x80FD, 0x66F4, 0x4E0A, 0x4E00, 0x5C64, 0x6A13, 0xFF01]"

definition effectiveness_remark_fair :: ustr where \<comment> \<open>line 206\<close>
  "effectiveness_remark_fair =
     [0x1F4A1, 0x20, 0x9084, 0x6709, 0x9032, 0x6B65, 0x7A7A, 0x9593, 0xFF0C, 0x5EFA,
      0x8B70, 0x91CD, 0x65B0, 0x8907, 0x7FD2, 0x4E00, 0x4E0B, 0x91CD, 0x9EDE, 0x5167,
      0x5BB9, 0xFF01]"

definition effectiveness_remark_low :: ustr where \<comment> \<open>line 208\<close>
  "effectiveness_remark_low =
     [0x1F4DA, 0x20, 0x5225, 0x7070, 0x5FC3, 0xFF01, 0x5B78, 0x7FD2, 0x662F, 0x500B,
      0x904E, 0x7A0B, 0xFF0C, 0x5EFA, 0x8B70, 0x5148, 0x56DE, 0x53BB, 0x770B, 0x770B,
      0x50, 0x44, 0x46, 0x5167, 0x5BB9, 0xFF01]"

definition correct_label :: ustr where \<comment> \<open>line 210\<close>
  "correct_label =
     [0x2705, 0x20, 0x7B54, 0x5C0D, 0xFF1A]"

definition question_unit :: ustr where \<comment> \<open>line 210\<close>
  "question_unit =
     [0x984C]"

definition wrong_label :: ustr where \<comment> \<open>line 210\<close>
  "wrong_label =
     [0x274C, 0x20, 0x7B54, 0x932F, 0xFF1A]"

definition unanswered_label :: ustr where \<comment> \<open>line 212\<close>
  "unanswered_label =
     [0x23F8, 0xFE0F, 0x20, 0x672A, 0x4F5C, 0x7B54, 0xFF1A]"

definition concentration_head :: ustr where \<comment> \<open>line 217\<close>
  "concentration_head =
     [0x2778, 0x5B78, 0x7FD2, 0x5C08, 0x5FC3, 0x5EA6]"

definition pace_remark_fast :: ustr where \<comment> \<open>line 219\<close>
  "pace_remark_fast =
     [0x26A1, 0x20, 0x53CD, 0x61C9, 0x795E, 0x901F, 0xFF01, 0x4F46, 0x8A18, 0x5F97,
      0x8981, 0x4ED4, 0x7D30, 0x601D, 0x8003, 0x5594, 0xFF01]"

definition pace_remark_steady :: ustr where \<comment> \<open>line 221\<close>
  "pace_remark_steady =
     [0x23F1, 0xFE0F, 0x20, 0x601D, 0x8003, 0x901F, 0x5EA6, 0x525B, 0x597D, 0xFF0C,
      0x5F88, 0x7A69, 0x5065, 0x7684, 0x5B78, 0x7FD2, 0x7BC0, 0x594F, 0xFF01]"

definition pace_remark_slow :: ustr where \<comment> \<open>line 223\<close>
  "pace_remark_slow =
     [0x1F40C, 0x20, 0x6162, 0x5DE5, 0x51FA, 0x7D30, 0x6D3B, 0xFF0C, 0x4F46, 0x53EF,
      0x4EE5, 0x8A66, 0x8457, 0x63D0, 0x9AD8, 0x4E00, 0x9EDE, 0x6548, 0x7387, 0xFF01]"

definition avg_time_label :: ustr where \<comment> \<open>line 225\<close>
  "avg_time_label =
     [0x1F550, 0x20, 0x5E73, 0x5747, 0x7B54, 0x984C, 0x6642, 0x9593, 0xFF1A]"

definition avg_time_unit :: ustr where \<comment> \<open>line 225\<close>
  "avg_time_unit =
     [0x79D2]"

definition advice_heading :: ustr where \<comment> \<open>line 228\<close>
  "advice_heading =
     [0x1F4AD, 0x20, 0x41, 0x49, 0x5C0F, 0x8001, 0x5E2B, 0x7684, 0x8CBC, 0x5FC3, 0x5EFA,
      0x8B70, 0xFF1A]"

definition tip_time_management :: ustr where \<comment> \<open>line 231\<close>
  "tip_time_management =
     [0x23F0, 0x20, 0x6709, 0x4E0D, 0x5C11, 0x984C, 0x76EE, 0x9084, 0x6C92, 0x5B8C,
      0x6210, 0xFF0C, 0x5EFA, 0x8B70, 0x5408, 0x7406, 0x5B89, 0x6392, 0x6642, 0x9593,
      0x5594, 0xFF01]"

definition tip_focus :: ustr where \<comment> \<open>line 233\<close>
  "tip_focus =
     [0x1F3AF, 0x20, 0x5EFA, 0x8B70, 0x5148, 0x63D0, 0x5347, 0x5C08, 0x6CE8, 0x529B,
      0xFF0C, 0x53EF, 0x4EE5, 0x8A66, 0x8A66, 0x756A, 0x8304, 0x9418, 0x5B78, 0x7FD2,
      0x6CD5, 0xFF01]"

definition tip_review :: ustr where \<comment> \<open>line 235\<close>
  "tip_review =
     [0x1F4D6, 0x20, 0x591A, 0x82B1, 0x9EDE, 0x6642, 0x9593, 0x5728, 0x50, 0x44, 0x46,
      0x95B1, 0x8B80, 0x4E0A, 0xFF0C, 0x57FA, 0x790E, 0x6253, 0x7A69, 0x5F88, 0x91CD,
      0x8981, 0xFF01]"

definition tip_speed :: ustr where \<comment> \<open>line 237\<close>
  "tip_speed =
     [0x26A1, 0x20, 0x53EF, 0x4EE5, 0x591A, 0x505A, 0x7DF4, 0x7FD2, 0x984C, 0x4F86,
      0x63D0, 0x5347, 0x7B54, 0x984C, 0x901F, 0x5EA6, 0x5594, 0xFF01]"

definition tip_encouragement :: ustr where \<comment> \<open>line 239\<close>
  "tip_encouragement =
     [0x1F308, 0x20, 0x4F60, 0x7684, 0x5B78, 0x7FD2, 0x72C0, 0x614B, 0x5F88, 0x68D2,
      0xFF01, 0x7E7C, 0x7E8C, 0x4FDD, 0x6301, 0x9019, 0x500B, 0x7BC0, 0x594F, 0xFF01]"

definition closing_line :: ustr where \<comment> \<open>line 241\<close>
  "closing_line =
     [0x1F680, 0x20, 0x52A0, 0x6CB9, 0xFF01, 0x6BCF, 0x4E00, 0x6B21, 0x5B78, 0x7FD2,
      0x90FD, 0x8B93, 0x4F60, 0x66F4, 0x63A5, 0x8FD1, 0x76EE, 0x6A19, 0xFF01]"

definition ai_marker :: ustr where \<comment> \<open>line 244\<close>
  "ai_marker =
     [0x1F916, 0x20, 0x41, 0x49, 0x5EFA, 0x8B70, 0xFF1A]"


section \<open>The composer (\<^verbatim>\<open>generate_learning_message\<close>, lines 166 to 246)\<close>

text \<open>
  Lines 168 and 169: a callable \<^verbatim>\<open>totalQuestions\<close> is called on the dictionary and its
  result is stored back into the dictionary, which the caller still holds. The function
  below returns the dictionary after that step together with the number.
\<close>

definition resolve_total_questions :: "session \<Rightarrow> session \<times> int" where
  "resolve_total_questions data =
     (case totalQuestions data of
        Callable \<Rightarrow>
          (let n = correctCount data + wrongCount data + unansweredCount data
           in (data\<lparr>totalQuestions := Number n\<rparr>, n))
      | Number n \<Rightarrow> (data, n))"

text \<open>Lines 189 to 197, the attitude section.\<close>

definition attitude_section :: "rat \<Rightarrow> rat \<Rightarrow> ustr" where
  "attitude_section attitude_score total_time =
     attitude_head @ get_star_rating attitude_score @ score_open @ fmt_1f attitude_score
       @ score_close @ [newline]
     @ (if 80 \<le> attitude_score then attitude_remark_high @ [newline]
        else if 60 \<le> attitude_score then attitude_remark_mid @ [newline]
        else attitude_remark_low @ [newline])
     @ total_time_label @ fmt_1f (round_to_double (total_time / 60)) @ total_time_unit @ [newline, newline]"

text \<open>Lines 200 to 214, the effectiveness section.\<close>

definition effectiveness_section :: "rat \<Rightarrow> int \<Rightarrow> int \<Rightarrow> int \<Rightarrow> ustr" where
  "effectiveness_section effectiveness_score correct_count wrong_count unanswered_count =
     effectiveness_head @ get_star_rating effectiveness_score @ score_open
       @ fmt_1f effectiveness_score @ score_close @ [newline]
     @ (if 90 \<le> effectiveness_score then effectiveness_remark_top @ [newline]
        else if 70 \<le> effectiveness_score then effectiveness_remark_good @ [newline]
        else if 50 \<le> effectiveness_score then effectiveness_remark_fair @ [newline]
        else effectiveness_remark_low @ [newline])
     @ correct_label @ str_int correct_count @ question_unit @ [newline]
     @ wrong_label @ str_int wrong_count @ question_unit @ [newline]
     @ (if 0 < unanswered_count
        then unanswered_label @ str_int unanswered_count @ question_unit @ [newline]
        else [])
     @ [newline]"

text \<open>Lines 217 to 225, the concentration section.\<close>

definition concentration_section :: "rat \<Rightarrow> rat \<Rightarrow> ustr" where
  "concentration_section concentration_score avg_answer_time =
     concentration_head @ get_star_rating concentration_score @ score_open
       @ fmt_1f concentration_score @ score_close @ [newline]
     @ (if avg_answer_time \<le> 10 then pace_remark_fast @ [newline]
        else if avg_answer_time \<le> 30 then pace_remark_steady @ [newline]
        else pace_remark_slow @ [newline])
     @ avg_time_label @ fmt_1f avg_answer_time @ avg_time_unit @ [newline, newline]"

text \<open>
  Lines 228 to 239, the personal advice. \<^verbatim>\<open>total_questions * 0.3\<close> is the exact product
  by three tenths.
\<close>

definition personal_advice ::
  "int \<Rightarrow> int \<Rightarrow> rat \<Rightarrow> rat \<Rightarrow> rat \<Rightarrow> ustr" where
  "personal_advice unanswered_count total_questions attitude_score effectiveness_score
       avg_answer_time =
     advice_heading @ [newline]
     @ (if of_int total_questions * (3 / 10) < (of_int unanswered_count :: rat)
        then tip_time_management @ [newline]
        else if attitude_score < 60 \<and> effectiveness_score < 70 then tip_focus @ [newline]
        else if effectiveness_score < 70 then tip_review @ [newline]
        else if 30 < avg_answer_time then tip_speed @ [newline]
        else tip_encouragement @ [newline])"

text \<open>
  The whole function. \<open>ai_advice\<close> is what \<^verbatim>\<open>AIAdviceService.get_ai_advice(data)\<close>
  returned at line 243. The result is the dictionary as the call leaves it and the
  message.
\<close>

definition generate_learning_message :: "session \<Rightarrow> ustr \<Rightarrow> session \<times> ustr" where
  "generate_learning_message data0 ai_advice =
     (let (data, total_questions) = resolve_total_questions data0;
          message = report_title @ [newline, newline];
          message = message @ attitude_section (attitudeScore data) (totalTime data);
          message = message @ effectiveness_section (effectivenessScore data)
                      (correctCount data) (wrongCount data) (unansweredCount data);
          message = message @ concentration_section (concentrationScore data)
                      (avgAnswerTime data);
          message = message @ personal_advice (unansweredCount data) total_questions
                      (attitudeScore data) (effectivenessScore data) (avgAnswerTime data);
          message = message @ [newline] @ closing_line;
          message = message @ [newline, newline] @ ai_marker @ ai_advice
      in (data, message))"


section \<open>The trigger endpoint (\<^verbatim>\<open>unity_notify\<close>, lines 265 to 275)\<close>

text \<open>
  The JSON payload either has the key \<^verbatim>\<open>totalTime\<close>, and is then given to the composer
  as it was received, or it has not, and the message is its entry \<^verbatim>\<open>message\<close> or the
  default of line 272. The broadcast that follows is outside the model.
\<close>

datatype payload = SessionPayload session | PlainPayload "ustr option"

definition default_message :: ustr where \<comment> \<open>line 272\<close>
  "default_message = [0x904A, 0x6232, 0x958B, 0x59CB, 0x5566, 0xFF01]"

definition unity_notify_message :: "payload \<Rightarrow> ustr \<Rightarrow> ustr" where
  "unity_notify_message data ai_advice =
     (case data of
        SessionPayload d \<Rightarrow> snd (generate_learning_message d ai_advice)
      | PlainPayload m \<Rightarrow> (case m of Some t \<Rightarrow> t | None \<Rightarrow> default_message))"

section \<open>The parser (\<^verbatim>\<open>parse_learning_data\<close>, lines 354 to 406)\<close>

record report_section =
  number :: ustr
  title :: ustr
  stars :: ustr
  score :: ustr
  content :: "ustr list"
  stats :: "ustr list"

record parsed =
  sections :: "report_section list"
  ai_advice :: ustr
  motivation :: ustr

definition is_star :: "nat \<Rightarrow> bool" where
  "is_star c \<longleftrightarrow> c = filled_glyph \<or> c = empty_glyph"

text \<open>
  Line 376, \<^verbatim>\<open>re.match\<close> with an ordinal glyph (U+2776, U+2777 or U+2778) followed by one
  or more characters that are not star glyphs: the match is at the start of the line, the
  second group is greedy and nothing follows it, so it is the longest run. The result is
  the pair of groups, or \<open>None\<close> when the pattern does not match.
\<close>

definition section_match :: "ustr \<Rightarrow> (ustr \<times> ustr) option" where
  "section_match line =
     (case line of
        [] \<Rightarrow> None
      | c # rest \<Rightarrow>
          if c = 0x2776 \<or> c = 0x2777 \<or> c = 0x2778
          then (let g = takeWhile (\<lambda>x. \<not> is_star x) rest
                in if g = [] then None else Some ([c], g))
          else None)"

text \<open>Line 377, \<^verbatim>\<open>re.search\<close> for a run of star glyphs: the leftmost run, at its longest.\<close>

definition stars_match :: "ustr \<Rightarrow> ustr option" where
  "stars_match line =
     (let rest = dropWhile (\<lambda>x. \<not> is_star x) line
      in if rest = [] then None else Some (takeWhile is_star rest))"

text \<open>
  Line 378, \<^verbatim>\<open>re.search\<close> for an opening parenthesis (U+0028), one or more characters
  other than the closing one (U+0029), and the closing one. The search tries each position
  from the left; at an opening parenthesis the group takes every character up to the next
  closing parenthesis, and the match succeeds when the group is not empty and a closing
  parenthesis does follow.
\<close>

fun score_match :: "ustr \<Rightarrow> ustr option" where
  "score_match [] = None"
| "score_match (c # rest) =
     (if c = 0x28
      then (let g = takeWhile (\<lambda>x. x \<noteq> 0x29) rest
            in if g \<noteq> [] \<and> length g < length rest then Some g else score_match rest)
      else score_match rest)"

text \<open>Lines 380 to 387, the dictionary of a new section.\<close>

definition new_section :: "ustr \<Rightarrow> report_section" where
  "new_section line =
     \<lparr>number = (case section_match line of Some (n, t) \<Rightarrow> n | None \<Rightarrow> []),
      title = (case section_match line of Some (n, t) \<Rightarrow> strip t | None \<Rightarrow> line),
      stars = (case stars_match line of Some g \<Rightarrow> g | None \<Rightarrow> []),
      score = (case score_match line of Some g \<Rightarrow> g | None \<Rightarrow> []),
      content = [],
      stats = []\<rparr>"

text \<open>Line 370, and lines 395 to 397.\<close>

definition is_section_line :: "ustr \<Rightarrow> bool" where
  "is_section_line line \<longleftrightarrow>
     startswith line [0x2776] \<or> startswith line [0x2777] \<or> startswith line [0x2778]"

definition is_stat_line :: "ustr \<Rightarrow> bool" where
  "is_stat_line line \<longleftrightarrow>
     startswith line [0x23F0] \<or> startswith line [0x2705] \<or> startswith line [0x274C]
     \<or> startswith line [0x23F8, 0xFE0F] \<or> startswith line [0x1F550]"

definition rocket :: ustr where \<comment> \<open>line 392\<close>
  "rocket = [0x1F680]"

text \<open>
  \<^verbatim>\<open>if current_section: data['sections'].append(current_section)\<close> (lines 371 and 403);
  a section dictionary has six keys and is true whenever it is not \<^verbatim>\<open>None\<close>.
\<close>

definition flush_section :: "parsed \<Rightarrow> report_section option \<Rightarrow> parsed" where
  "flush_section data current_section =
     (case current_section of
        None \<Rightarrow> data
      | Some sec \<Rightarrow> data\<lparr>sections := sections data @ [sec]\<rparr>)"

text \<open>
  One turn of the loop of line 364, on the pair of \<^verbatim>\<open>data\<close> and \<^verbatim>\<open>current_section\<close>. The
  marker of line 389 is the literal of line 244, \<^const>\<open>ai_marker\<close>.
\<close>

definition parse_line :: "parsed \<times> report_section option \<Rightarrow> ustr \<Rightarrow> parsed \<times> report_section option" where
  "parse_line st raw =
     (let data = fst st; current_section = snd st; line = strip raw
      in if line = [] then (data, current_section)
         else if is_section_line line
           then (flush_section data current_section, Some (new_section line))
         else if startswith line ai_marker
           then (data\<lparr>ai_advice := strip (remove_all ai_marker line)\<rparr>, current_section)
         else if startswith line rocket
           then (data\<lparr>motivation := line\<rparr>, current_section)
         else (case current_section of
                 None \<Rightarrow> (data, None)
               | Some sec \<Rightarrow>
                   if is_stat_line line
                   then (data, Some (sec\<lparr>stats := stats sec @ [line]\<rparr>))
                   else (data, Some (sec\<lparr>content := content sec @ [line]\<rparr>))))"

fun parse_loop :: "parsed \<times> report_section option \<Rightarrow> ustr list \<Rightarrow> parsed \<times> report_section option" where
  "parse_loop st [] = st"
| "parse_loop st (raw # lines) = parse_loop (parse_line st raw) lines"

definition parse_learning_data :: "ustr list \<Rightarrow> parsed" where
  "parse_learning_data lines =
     (let st = parse_loop (\<lparr>sections = [], ai_advice = [], motivation = []\<rparr>, None) lines
      in flush_section (fst st) (snd st))"

section \<open>The renderer (lines 336 to 351 and 409 to 636)\<close>

text \<open>
  The objects of the messaging library are a tree: a box with its children, a text, a
  separator. Their keyword arguments other than \<^verbatim>\<open>text\<close> and \<^verbatim>\<open>contents\<close> are kept as a
  list of names and values, in the order of the source.
\<close>

datatype attr_value = AStr string | AInt int | ABool bool

datatype flex =
    FlexBox "(string \<times> attr_value) list" "flex list"
  | FlexText ustr "(string \<times> attr_value) list"
  | FlexSeparator "(string \<times> attr_value) list"

datatype flex_bubble = FlexBubble "(string \<times> attr_value) list" flex flex

datatype py_error = IndexError

text \<open>\<^verbatim>\<open>xs[i]\<close> with an index that is not negative: out of range raises \<^verbatim>\<open>IndexError\<close>.\<close>

definition list_get :: "'a list \<Rightarrow> nat \<Rightarrow> py_error + 'a" where
  "list_get xs i = (if i < length xs then Inr (xs ! i) else Inl IndexError)"

record color =
  bg :: string
  light :: string
  text_color :: string

definition colors :: "color list" where \<comment> \<open>lines 517 to 521, key \<^verbatim>\<open>text\<close> as \<open>text_color\<close>\<close>
  "colors =
     [\<lparr>bg = ''#4ade80'', light = ''#dcfce7'', text_color = ''#166534''\<rparr>,
      \<lparr>bg = ''#fbbf24'', light = ''#fef3c7'', text_color = ''#92400e''\<rparr>,
      \<lparr>bg = ''#f87171'', light = ''#fee2e2'', text_color = ''#991b1b''\<rparr>]"

text \<open>\<^verbatim>\<open>create_header\<close>, lines 409 to 446.\<close>

definition create_header :: flex where
  "create_header =
     FlexBox [(''layout'', AStr ''vertical''), (''backgroundColor'', AStr ''#667eea''),
              (''paddingAll'', AStr ''20px'')]
       [FlexBox [(''layout'', AStr ''horizontal'')]
          [FlexText [0x1F4CA]
             [(''size'', AStr ''xxl''), (''color'', AStr ''#FFFFFF''), (''flex'', AInt 1)],
           FlexBox [(''layout'', AStr ''vertical''), (''flex'', AInt 4)]
             [FlexText [0x5B78, 0x7FD2, 0x6210, 0x679C, 0x5831, 0x544A]
                [(''weight'', AStr ''bold''), (''size'', AStr ''xl''),
                 (''color'', AStr ''#FFFFFF'')],
              FlexText (map of_char ''Learning Report'')
                [(''size'', AStr ''sm''), (''color'', AStr ''#E8EAFF''),
                 (''margin'', AStr ''xs'')]]]]"

text \<open>\<^verbatim>\<open>create_ai_advice_box\<close>, lines 473 to 512.\<close>

definition create_ai_advice_box :: "ustr \<Rightarrow> flex" where
  "create_ai_advice_box advice =
     FlexBox [(''layout'', AStr ''vertical''), (''backgroundColor'', AStr ''#1e293b''),
              (''cornerRadius'', AStr ''lg''), (''paddingAll'', AStr ''20px'')]
       [FlexBox [(''layout'', AStr ''horizontal'')]
          [FlexText [0x1F916] [(''size'', AStr ''lg''), (''color'', AStr ''#FFFFFF'')],
           FlexBox [(''layout'', AStr ''vertical''), (''flex'', AInt 5),
                    (''margin'', AStr ''sm'')]
             [FlexText [0x41, 0x49, 0x20, 0x5C08, 0x5C6C, 0x5EFA, 0x8B70]
                [(''weight'', AStr ''bold''), (''size'', AStr ''md''),
                 (''color'', AStr ''#FFFFFF'')],
              FlexText advice
                [(''size'', AStr ''sm''), (''color'', AStr ''#cbd5e1''),
                 (''margin'', AStr ''xs''), (''wrap'', ABool True)]]]]"

text \<open>
  \<^verbatim>\<open>create_modern_section\<close>, lines 514 to 636, after the colour is chosen: the title card
  (lines 528 to 581) and, when the section has content or statistics, the content card
  (lines 584 to 634).
\<close>

definition title_card :: "color \<Rightarrow> report_section \<Rightarrow> flex" where
  "title_card col sec =
     FlexBox [(''layout'', AStr ''vertical''), (''backgroundColor'', AStr (bg col)),
              (''cornerRadius'', AStr ''lg''), (''paddingAll'', AStr ''16px'')]
       [FlexBox [(''layout'', AStr ''horizontal'')]
          [FlexText (number sec)
             [(''size'', AStr ''xl''), (''weight'', AStr ''bold''),
              (''color'', AStr ''#FFFFFF''), (''flex'', AInt 1)],
           FlexBox [(''layout'', AStr ''vertical''), (''flex'', AInt 5)]
             [FlexText (title sec)
                [(''weight'', AStr ''bold''), (''size'', AStr ''lg''),
                 (''color'', AStr ''#FFFFFF''), (''wrap'', ABool True)],
              FlexBox [(''layout'', AStr ''horizontal''), (''margin'', AStr ''sm'')]
                [FlexText (stars sec)
                   [(''size'', AStr ''md''), (''color'', AStr ''#FFFFFF''),
                    (''flex'', AInt 3)],
                 FlexText (score sec)
                   [(''size'', AStr ''md''), (''weight'', AStr ''bold''),
                    (''color'', AStr ''#FFFFFF''), (''align'', AStr ''end''),
                    (''flex'', AInt 2)]]]]]"

definition content_items :: "report_section \<Rightarrow> flex list" where
  "content_items sec =
     (let items =
            map (\<lambda>c. FlexText c [(''size'', AStr ''sm''), (''color'', AStr ''#374151''),
                                  (''wrap'', ABool True), (''margin'', AStr ''sm'')])
              (content sec)
      in if stats sec \<noteq> []
         then (if items \<noteq> [] then items @ [FlexSeparator [(''margin'', AStr ''md'')]]
               else items)
              @ [FlexBox [(''layout'', AStr ''vertical''),
                          (''backgroundColor'', AStr ''#ffffff''),
                          (''cornerRadius'', AStr ''md''), (''paddingAll'', AStr ''12px''),
                          (''margin'', AStr ''sm'')]
                   (map (\<lambda>stat. FlexText stat [(''size'', AStr ''sm''),
                                               (''color'', AStr ''#6b7280''),
                                               (''margin'', AStr ''xs'')])
                      (stats sec))]
         else items)"

definition section_cards :: "color \<Rightarrow> report_section \<Rightarrow> flex list" where
  "section_cards col sec =
     [title_card col sec]
     @ (if content sec \<noteq> [] \<or> stats sec \<noteq> []
        then (let items = content_items sec
              in if items \<noteq> []
                 then [FlexBox [(''layout'', AStr ''vertical''),
                                (''backgroundColor'', AStr (light col)),
                                (''cornerRadius'', AStr ''md''),
                                (''paddingAll'', AStr ''16px''), (''margin'', AStr ''sm'')]
                         items]
                 else [])
        else [])"

text \<open>Line 523 reads the palette at \<^verbatim>\<open>index % 3\<close>; the read can raise.\<close>

definition create_modern_section :: "report_section \<Rightarrow> nat \<Rightarrow> py_error + flex list" where
  "create_modern_section sec index =
     (case list_get colors (index mod 3) of
        Inl e \<Rightarrow> Inl e
      | Inr col \<Rightarrow> Inr (section_cards col sec))"

text \<open>
  \<^verbatim>\<open>create_body\<close>, lines 449 to 471. The loop of line 454 runs over the sections with
  their positions, counted from 0, and stops at the first error.
\<close>

fun body_sections :: "nat \<Rightarrow> report_section list \<Rightarrow> flex list \<Rightarrow> py_error + flex list" where
  "body_sections i [] contents = Inr contents"
| "body_sections i (sec # secs) contents =
     (let contents = (if 0 < i then contents @ [FlexSeparator [(''margin'', AStr ''lg'')]]
                      else contents)
      in case create_modern_section sec i of
           Inl e \<Rightarrow> Inl e
         | Inr cards \<Rightarrow> body_sections (Suc i) secs (contents @ cards))"

definition body_attrs :: "(string \<times> attr_value) list" where
  "body_attrs =
     [(''layout'', AStr ''vertical''), (''paddingAll'', AStr ''20px''),
      (''backgroundColor'', AStr ''#f8f9ff''), (''spacing'', AStr ''md'')]"

definition create_body :: "parsed \<Rightarrow> py_error + flex" where
  "create_body data =
     (case body_sections 0 (sections data) [] of
        Inl e \<Rightarrow> Inl e
      | Inr contents \<Rightarrow>
          Inr (FlexBox body_attrs
                 (if ai_advice data \<noteq> []
                  then contents @ [FlexSeparator [(''margin'', AStr ''xl'')],
                                   create_ai_advice_box (ai_advice data)]
                  else contents)))"

text \<open>\<^verbatim>\<open>create_learning_report_flex\<close>, lines 336 to 351.\<close>

definition create_learning_report_flex :: "ustr \<Rightarrow> py_error + flex_bubble" where
  "create_learning_report_flex message =
     (let lines = split_lines message; data = parse_learning_data lines
      in case create_body data of
           Inl e \<Rightarrow> Inl e
         | Inr body \<Rightarrow>
             Inr (FlexBubble [(''size'', AStr ''giga''), (''direction'', AStr ''ltr'')]
                    create_header body))"


section \<open>Notions used to state the properties\<close>

text \<open>
  The number the composer works with after lines 168 and 169, and the text it builds from
  the dictionary, that number and the advice.
\<close>

definition resolved_total :: "session \<Rightarrow> int" where
  "resolved_total d = snd (resolve_total_questions d)"

definition report_text :: "session \<Rightarrow> int \<Rightarrow> ustr \<Rightarrow> ustr" where
  "report_text data total_questions advice =
     report_title @ [newline, newline]
     @ attitude_section (attitudeScore data) (totalTime data)
     @ effectiveness_section (effectivenessScore data) (correctCount data) (wrongCount data)
         (unansweredCount data)
     @ concentration_section (concentrationScore data) (avgAnswerTime data)
     @ personal_advice (unansweredCount data) total_questions (attitudeScore data)
         (effectivenessScore data) (avgAnswerTime data)
     @ [newline] @ closing_line @ [newline, newline] @ ai_marker @ advice"

text \<open>Two sessions: one as \<^verbatim>\<open>generate_fake_data\<close> builds them, one as sent by a client.\<close>

definition fake_session :: session where
  "fake_session = generate_fake_data 1800 85 92 70 10 2 0 12"

definition supplied_total_session :: session where
  "supplied_total_session =
     \<lparr>totalTime = 1800, attitudeScore = 85, effectivenessScore = 92, concentrationScore = 70,
      correctCount = 0, wrongCount = 0, unansweredCount = 5, totalQuestions = Number 100,
      avgAnswerTime = 12\<rparr>"

definition sample_session :: session where
  "sample_session =
     \<lparr>totalTime = 1800, attitudeScore = 85, effectivenessScore = 92, concentrationScore = 70,
      correctCount = 10, wrongCount = 2, unansweredCount = 0, totalQuestions = Number 12,
      avgAnswerTime = 12\<rparr>"

text \<open>
  A session with unanswered questions and low scores, as \<^verbatim>\<open>generate_fake_data\<close> could
  build it.
\<close>

definition hurried_session :: session where
  "hurried_session =
     \<lparr>totalTime = 600, attitudeScore = 50, effectivenessScore = 60, concentrationScore = 40,
      correctCount = 3, wrongCount = 2, unansweredCount = 5, totalQuestions = Callable,
      avgAnswerTime = 40\<rparr>"

text \<open>Two advice strings: \<^verbatim>\<open>" ok "\<close>, and \<^verbatim>\<open>"a\nb"\<close> with a line feed in it.\<close>

definition plain_advice :: ustr where
  "plain_advice = [0x20, 0x6F, 0x6B, 0x20]"

definition two_line_advice :: ustr where
  "two_line_advice = [0x61, 0xA, 0x62]"

text \<open>
  Four lines for the parser: a statistics line before any section, a section line with
  blanks around it, a statistics line, and a second section line.
\<close>

definition stray_lines :: "ustr list" where
  "stray_lines =
     [[0x2705, 0x20, 0x78], [0x20, 0x2776, 0x61, 0x2B50, 0x20], [0x23F0, 0x20, 0x79],
      [0x2777, 0x62]]"

text \<open>
  An advice of two lines, \<^verbatim>\<open>"x"\<close> and a line made of the marker of the unanswered
  count, the digit 9 and the unit.
\<close>

definition marker_advice :: ustr where
  "marker_advice =
     [0x78, 0xA, 0x23F8, 0xFE0F, 0x20, 0x672A, 0x4F5C, 0x7B54, 0xFF1A, 0x39, 0x984C]"

text \<open>A parsed report with four empty sections.\<close>

definition four_section_report :: parsed where
  "four_section_report =
     \<lparr>sections = map (\<lambda>n. \<lparr>number = [n], title = [], stars = [], score = [], content = [],
                                stats = []\<rparr>) [0x2776, 0x2777, 0x2778, 0x2776],
      ai_advice = [], motivation = []\<rparr>"

text \<open>
  The lines of the report: \<open>unlines\<close> ends every line with a line feed, and
  \<open>report_lines\<close> lists the lines that the composer writes before the advice of the
  advisor, each named after the statement of the source that writes it.
\<close>

definition unlines :: "ustr list \<Rightarrow> ustr" where
  "unlines ls = concat (map (\<lambda>l. l @ [newline]) ls)"

definition header_line :: "ustr \<Rightarrow> rat \<Rightarrow> ustr" where
  "header_line head sc = head @ get_star_rating sc @ score_open @ fmt_1f sc @ score_close"

definition attitude_remark :: "rat \<Rightarrow> ustr" where
  "attitude_remark attitude_score =
     (if 80 \<le> attitude_score then attitude_remark_high
      else if 60 \<le> attitude_score then attitude_remark_mid
      else attitude_remark_low)"

definition effectiveness_remark :: "rat \<Rightarrow> ustr" where
  "effectiveness_remark effectiveness_score =
     (if 90 \<le> effectiveness_score then effectiveness_remark_top
      else if 70 \<le> effectiveness_score then effectiveness_remark_good
      else if 50 \<le> effectiveness_score then effectiveness_remark_fair
      else effectiveness_remark_low)"

definition pace_remark :: "rat \<Rightarrow> ustr" where
  "pace_remark avg_answer_time =
     (if avg_answer_time \<le> 10 then pace_remark_fast
      else if avg_answer_time \<le> 30 then pace_remark_steady
      else pace_remark_slow)"

definition personal_tip :: "int \<Rightarrow> int \<Rightarrow> rat \<Rightarrow> rat \<Rightarrow> rat \<Rightarrow> ustr" where
  "personal_tip unanswered_count total_questions attitude_score effectiveness_score
       avg_answer_time =
     (if of_int total_questions * (3 / 10) < (of_int unanswered_count :: rat)
      then tip_time_management
      else if attitude_score < 60 \<and> effectiveness_score < 70 then tip_focus
      else if effectiveness_score < 70 then tip_review
      else if 30 < avg_answer_time then tip_speed
      else tip_encouragement)"

definition report_lines :: "session \<Rightarrow> int \<Rightarrow> ustr list" where
  "report_lines d n =
     [report_title, [],
      header_line attitude_head (attitudeScore d),
      attitude_remark (attitudeScore d),
      total_time_label @ fmt_1f (round_to_double (totalTime d / 60)) @ total_time_unit,
      [],
      header_line effectiveness_head (effectivenessScore d),
      effectiveness_remark (effectivenessScore d),
      correct_label @ str_int (correctCount d) @ question_unit,
      wrong_label @ str_int (wrongCount d) @ question_unit]
     @ (if 0 < unansweredCount d
        then [unanswered_label @ str_int (unansweredCount d) @ question_unit] else [])
     @ [[],
        header_line concentration_head (concentrationScore d),
        pace_remark (avgAnswerTime d),
        avg_time_label @ fmt_1f (avgAnswerTime d) @ avg_time_unit,
        [],
        advice_heading,
        personal_tip (unansweredCount d) n (attitudeScore d) (effectivenessScore d)
          (avgAnswerTime d),
        [],
        closing_line,
        []]"

text \<open>
  What the parser does with a line inside an open section (lines 395 to 401), the lines
  that reach that branch unchanged by trimming, and the three sections it builds from the
  lines of a report.
\<close>

definition add_line :: "report_section \<Rightarrow> ustr \<Rightarrow> report_section" where
  "add_line sec line =
     (if is_stat_line line then sec\<lparr>stats := stats sec @ [line]\<rparr>
      else sec\<lparr>content := content sec @ [line]\<rparr>)"

definition body_line :: "ustr \<Rightarrow> bool" where
  "body_line l \<longleftrightarrow>
     l \<noteq> [] \<and> strip l = l \<and> \<not> is_section_line l \<and> \<not> startswith l ai_marker
     \<and> \<not> startswith l rocket"

definition parsed_attitude :: "session \<Rightarrow> report_section" where
  "parsed_attitude d =
     foldl add_line (new_section (header_line attitude_head (attitudeScore d)))
       [attitude_remark (attitudeScore d),
        total_time_label @ fmt_1f (round_to_double (totalTime d / 60)) @ total_time_unit]"

definition parsed_effectiveness :: "session \<Rightarrow> report_section" where
  "parsed_effectiveness d =
     foldl add_line (new_section (header_line effectiveness_head (effectivenessScore d)))
       ([effectiveness_remark (effectivenessScore d),
         correct_label @ str_int (correctCount d) @ question_unit,
         wrong_label @ str_int (wrongCount d) @ question_unit]
        @ (if 0 < unansweredCount d
           then [unanswered_label @ str_int (unansweredCount d) @ question_unit]
           else []))"

definition parsed_concentration :: "session \<Rightarrow> int \<Rightarrow> report_section" where
  "parsed_concentration d n =
     foldl add_line (new_section (header_line concentration_head (concentrationScore d)))
       [pace_remark (avgAnswerTime d),
        avg_time_label @ fmt_1f (avgAnswerTime d) @ avg_time_unit,
        advice_heading,
        personal_tip (unansweredCount d) n (attitudeScore d) (effectivenessScore d)
          (avgAnswerTime d)]"

section \<open>Properties\<close>

subsection \<open>The star rating\<close>

lemma filled_stars_range: "1 \<le> filled_stars s \<and> filled_stars s \<le> 5"
  by (simp add: filled_stars_def)

lemma length_get_star_rating: "length (get_star_rating s) = 5"
  using filled_stars_range [of s]
  unfolding get_star_rating_def empty_stars_def by simp linarith

text \<open>
  C1. The star string of a score has \<open>max 1 (min 5 (round (s / 20)))\<close> filled glyphs,
  five minus that many empty glyphs, and so five glyphs in all. It holds for every
  score, in particular for those between 0 and 100.
\<close>

theorem star_rating_counts:
  "count_list (get_star_rating s) filled_glyph = nat (max 1 (min 5 (py_round (s / 20))))
   \<and> count_list (get_star_rating s) empty_glyph = 5 - nat (max 1 (min 5 (py_round (s / 20))))
   \<and> filled_stars s + empty_stars s = 5
   \<and> length (get_star_rating s) = 5"
proof -
  let ?f = "filled_stars s"
  have neq: "filled_glyph \<noteq> empty_glyph"
    by (simp add: filled_glyph_def empty_glyph_def)
  have cnt: "\<And>n (x::nat) y. count_list (replicate n x) y = (if x = y then n else 0)"
    by (induct_tac n) auto
  have r: "1 \<le> ?f \<and> ?f \<le> 5"
    by (rule filled_stars_range)
  have e: "nat (empty_stars s) = 5 - nat ?f"
    using r unfolding empty_stars_def by linarith
  have f: "?f = max 1 (min 5 (py_round (s / 20)))"
    by (simp add: filled_stars_def)
  have c1: "count_list (get_star_rating s) filled_glyph = nat ?f"
    using neq by (simp add: get_star_rating_def cnt)
  have c2: "count_list (get_star_rating s) empty_glyph = 5 - nat ?f"
    using neq e by (simp add: get_star_rating_def cnt)
  have c3: "?f + empty_stars s = 5"
    by (simp add: empty_stars_def)
  show ?thesis
    using c1 c2 c3 length_get_star_rating [of s] unfolding f by blast
qed

subsection \<open>The renderer\<close>

lemma list_get_colors: "list_get colors (i mod 3) = Inr (colors ! (i mod 3))"
  by (simp add: list_get_def colors_def)

lemma create_modern_section_ok:
  "create_modern_section sec i = Inr (section_cards (colors ! (i mod 3)) sec)"
  by (simp add: create_modern_section_def list_get_colors)

lemma body_sections_eq:
  "body_sections i secs acc =
     Inr (acc @ concat (map (\<lambda>(k, sec). (if 0 < k then [FlexSeparator [(''margin'', AStr ''lg'')]] else [])
                                         @ section_cards (colors ! (k mod 3)) sec)
                         (enumerate i secs)))"
proof (induction secs arbitrary: i acc)
  case Nil
  then show ?case by simp
next
  case (Cons sec secs)
  show ?case
    by (simp add: Let_def create_modern_section_ok Cons.IH)
qed

text \<open>
  C9. For a report with any number of sections the renderer returns a body, never an
  error: the read of the palette at line 523 is always in range, the cards of the section
  at position \<open>k\<close> (counted from 0) are built with the palette entry \<open>k mod 3\<close> of the
  three entries, and a separator precedes every section but the first. So two sections
  get the entries 0 and 1, and a fourth section gets entry 0 again.
\<close>

theorem renderer_palette_cycle:
  "create_modern_section sec i = Inr (section_cards (colors ! (i mod 3)) sec)
   \<and> length colors = 3
   \<and> create_body data =
       Inr (FlexBox body_attrs
              (concat (map (\<lambda>(k, sec). (if 0 < k then [FlexSeparator [(''margin'', AStr ''lg'')]] else [])
                                         @ section_cards (colors ! (k mod 3)) sec)
                         (enumerate 0 (sections data)))
               @ (if ai_advice data \<noteq> []
                  then [FlexSeparator [(''margin'', AStr ''xl'')],
                        create_ai_advice_box (ai_advice data)]
                  else [])))"
  by (simp add: create_modern_section_ok create_body_def body_sections_eq colors_def)

text \<open>
  The theorem at a report of four sections: the palette entries are 0, 1, 2 and 0.
\<close>

theorem renderer_palette_cycle_witness:
  "create_body four_section_report =
     Inr (FlexBox body_attrs
            [title_card (colors ! 0) \<lparr>number = [0x2776], title = [], stars = [], score = [], content = [], stats = []\<rparr>,
             FlexSeparator [(''margin'', AStr ''lg'')],
             title_card (colors ! 1) \<lparr>number = [0x2777], title = [], stars = [], score = [], content = [], stats = []\<rparr>,
             FlexSeparator [(''margin'', AStr ''lg'')],
             title_card (colors ! 2) \<lparr>number = [0x2778], title = [], stars = [], score = [], content = [], stats = []\<rparr>,
             FlexSeparator [(''margin'', AStr ''lg'')],
             title_card (colors ! 0) \<lparr>number = [0x2776], title = [], stars = [], score = [], content = [], stats = []\<rparr>])"
  using renderer_palette_cycle [of "hd (sections four_section_report)" 0 four_section_report]
  by (simp add: four_section_report_def section_cards_def enumerate_eq_zip upt_rec
      numeral_2_eq_2)

text \<open>
  C10. The body that the renderer builds does not depend on the \<^verbatim>\<open>motivation\<close> entry of
  the parsed report: it is made of the section cards and the advice card only. The parser
  does store the line that starts with the rocket, as it stands after trimming, in that
  entry and nowhere else.
\<close>

theorem motivation_dropped:
  "create_body (data\<lparr>motivation := m\<rparr>) = create_body data
   \<and> parse_line (data, cur) raw =
       (if strip raw \<noteq> [] \<and> startswith (strip raw) rocket
        then (data\<lparr>motivation := strip raw\<rparr>, cur)
        else parse_line (data, cur) raw)"
proof -
  have a: "create_body (data\<lparr>motivation := m\<rparr>) = create_body data"
    by (simp add: create_body_def split: sum.splits)
  have b: "\<And>l. startswith l rocket \<Longrightarrow> \<not> is_section_line l \<and> \<not> startswith l ai_marker"
    subgoal for l by (cases l) (auto simp: rocket_def is_section_line_def ai_marker_def)
    done
  show ?thesis
    using a b [of "strip raw"] by (auto simp: parse_line_def Let_def)
qed

text \<open>
  The theorem at the closing line of the composer: the parser stores it, trimmed, and the
  body is the same with and without it.
\<close>

theorem motivation_dropped_witness:
  "parse_line (\<lparr>sections = [], ai_advice = [], motivation = []\<rparr>, None) (0x20 # closing_line)
     = (\<lparr>sections = [], ai_advice = [], motivation = closing_line\<rparr>, None)
   \<and> create_body \<lparr>sections = [], ai_advice = [], motivation = closing_line\<rparr>
     = create_body \<lparr>sections = [], ai_advice = [], motivation = []\<rparr>"
proof -
  have s: "strip (0x20 # closing_line) = closing_line"
    by (simp add: closing_line_def strip_def lstrip_def rstrip_def py_isspace_def)
  have r: "closing_line \<noteq> [] \<and> startswith closing_line rocket"
    by (simp add: closing_line_def rocket_def)
  show ?thesis
    using motivation_dropped
      [where data = "\<lparr>sections = [], ai_advice = [], motivation = []\<rparr>"
         and m = closing_line and cur = None and raw = "0x20 # closing_line"] r
    by (simp add: s)
qed

subsection \<open>The parser on any input\<close>

lemma parse_line_measure:
  "length (sections (fst (parse_line st raw))) + (if snd (parse_line st raw) = None then 0 else 1)
   = length (sections (fst st)) + (if snd st = None then 0 else 1)
     + (if is_section_line (strip raw) then 1 else 0)"
proof -
  have e: "\<not> is_section_line []" by (simp add: is_section_line_def)
  show ?thesis
    using e by (cases st; cases "snd st") (auto simp: parse_line_def Let_def flush_section_def split: option.splits)
qed

lemma parse_loop_measure:
  "length (sections (fst (parse_loop st ls))) + (if snd (parse_loop st ls) = None then 0 else 1)
   = length (sections (fst st)) + (if snd st = None then 0 else 1)
     + length (filter (\<lambda>raw. is_section_line (strip raw)) ls)"
proof (induction ls arbitrary: st)
  case Nil
  then show ?case by simp
next
  case (Cons raw ls)
  show ?case
    using Cons.IH [of "parse_line st raw"] parse_line_measure [of st raw]
    by simp
qed

lemma flush_section_length:
  "length (sections (flush_section d c)) = length (sections d) + (if c = None then 0 else 1)"
  by (simp add: flush_section_def split: option.splits)

text \<open>
  C8. The parser is a total function of the lines it is given. A line that starts with
  a statistics marker while no section is open leaves both the parsed report and the open
  section as they were. The number of parsed sections is the number of lines that start
  with an ordinal glyph after trimming, so fewer than three such lines give fewer than
  three sections.
\<close>

theorem parser_lossy_total:
  "parse_line (data, None) raw =
     (if is_stat_line (strip raw) then (data, None) else parse_line (data, None) raw)
   \<and> length (sections (parse_learning_data ls))
       = length (filter (\<lambda>raw. is_section_line (strip raw)) ls)"
proof -
  have s: "\<And>l. is_stat_line l \<Longrightarrow> \<not> is_section_line l \<and> \<not> startswith l ai_marker \<and> \<not> startswith l rocket"
    subgoal for l by (cases l) (auto simp: rocket_def is_section_line_def ai_marker_def is_stat_line_def)
    done
  have a: "is_stat_line (strip raw) \<Longrightarrow> parse_line (data, None) raw = (data, None)"
    using s [of "strip raw"] by (auto simp: parse_line_def Let_def)
  have b: "length (sections (parse_learning_data ls)) = length (filter (\<lambda>raw. is_section_line (strip raw)) ls)"
    using parse_loop_measure [of "(\<lparr>sections = [], ai_advice = [], motivation = []\<rparr>, None)" ls]
    by (simp add: parse_learning_data_def Let_def flush_section_length)
  show ?thesis using a b by simp
qed

text \<open>
  The theorem at four lines: the statistics line that comes before any section is dropped,
  and the two section lines give two sections.
\<close>

theorem parser_lossy_total_witness:
  "is_stat_line (strip (hd stray_lines))
   \<and> parse_line (\<lparr>sections = [], ai_advice = [], motivation = []\<rparr>, None) (hd stray_lines)
       = (\<lparr>sections = [], ai_advice = [], motivation = []\<rparr>, None)
   \<and> length (sections (parse_learning_data stray_lines)) = 2"
proof -
  have s: "map strip stray_lines
      = [[0x2705, 0x20, 0x78], [0x2776, 0x61, 0x2B50], [0x23F0, 0x20, 0x79], [0x2777, 0x62]]"
    by (simp add: stray_lines_def strip_def lstrip_def rstrip_def py_isspace_def)
  have h: "hd stray_lines = [0x2705, 0x20, 0x78]"
    by (simp add: stray_lines_def)
  have f: "filter (\<lambda>raw. is_section_line (strip raw)) stray_lines
      = [[0x20, 0x2776, 0x61, 0x2B50, 0x20], [0x2777, 0x62]]"
    using s by (simp add: stray_lines_def is_section_line_def)
  have st: "is_stat_line (strip (hd stray_lines))"
    using s by (simp add: h stray_lines_def is_stat_line_def)
  show ?thesis
    using parser_lossy_total
      [of "\<lparr>sections = [], ai_advice = [], motivation = []\<rparr>" "hd stray_lines" stray_lines] st
    by (simp add: f)
qed

subsection \<open>The composer and the session\<close>

lemma resolved_total_eq:
  "resolved_total d =
     (case totalQuestions d of
        Callable \<Rightarrow> correctCount d + wrongCount d + unansweredCount d
      | Number n \<Rightarrow> n)"
  by (simp add: resolved_total_def resolve_total_questions_def Let_def split: total_questions.splits)

lemma resolve_fields:
  "attitudeScore (fst (resolve_total_questions d)) = attitudeScore d"
  "totalTime (fst (resolve_total_questions d)) = totalTime d"
  "effectivenessScore (fst (resolve_total_questions d)) = effectivenessScore d"
  "concentrationScore (fst (resolve_total_questions d)) = concentrationScore d"
  "correctCount (fst (resolve_total_questions d)) = correctCount d"
  "wrongCount (fst (resolve_total_questions d)) = wrongCount d"
  "unansweredCount (fst (resolve_total_questions d)) = unansweredCount d"
  "avgAnswerTime (fst (resolve_total_questions d)) = avgAnswerTime d"
  "totalQuestions (fst (resolve_total_questions d)) = Number (resolved_total d)"
  by (simp_all add: resolved_total_def resolve_total_questions_def Let_def split: total_questions.splits)

lemma resolve_data:
  "fst (resolve_total_questions d) = d\<lparr>totalQuestions := Number (resolved_total d)\<rparr>"
  by (cases "totalQuestions d") (simp_all add: resolved_total_def resolve_total_questions_def Let_def)

lemma generate_learning_message_eq:
  "generate_learning_message d a =
     (d\<lparr>totalQuestions := Number (resolved_total d)\<rparr>, report_text d (resolved_total d) a)"
proof -
  obtain d' n where r: "resolve_total_questions d = (d', n)"
    by (cases "resolve_total_questions d")
  have d': "d' = fst (resolve_total_questions d)" and n: "n = resolved_total d"
    using r by (simp_all add: resolved_total_def)
  show ?thesis
    unfolding generate_learning_message_def r Let_def prod.case report_text_def
    by (simp add: d' n resolve_fields resolve_data [symmetric])
qed

text \<open>
  C3, as stated, fails: the composer stores the computed total back into a session built
  by \<^verbatim>\<open>generate_fake_data\<close>, so the caller's dictionary is not what it was.
\<close>

theorem composer_mutates_counterexample:
  "fst (generate_learning_message fake_session []) \<noteq> fake_session"
proof
  assume "fst (generate_learning_message fake_session []) = fake_session"
  then have "totalQuestions (fst (generate_learning_message fake_session [])) = totalQuestions fake_session"
    by simp
  then show False
    by (simp add: generate_learning_message_eq fake_session_def generate_fake_data_def)
qed

text \<open>
  C3, amended. The composer returns a message for every session and advice, and the
  message is a function of the two. A session whose \<^verbatim>\<open>totalQuestions\<close> is a number is
  left unchanged; one that carries the lambda is changed in that entry only, which
  becomes the sum of the three counts. Composing again from the session as the first call
  left it gives the same message.
\<close>

theorem composer_pure_frame:
  "(case totalQuestions d of
      Number n \<Rightarrow> fst (generate_learning_message d a) = d
    | Callable \<Rightarrow>
        fst (generate_learning_message d a) =
          d\<lparr>totalQuestions := Number (correctCount d + wrongCount d + unansweredCount d)\<rparr>)
   \<and> snd (generate_learning_message (fst (generate_learning_message d a)) a)
       = snd (generate_learning_message d a)"
proof -
  have t: "resolved_total (d\<lparr>totalQuestions := Number (resolved_total d)\<rparr>) = resolved_total d"
    by (simp add: resolved_total_eq)
  have r: "report_text (d\<lparr>totalQuestions := Number k\<rparr>) n a = report_text d n a" for k n
    by (simp add: report_text_def)
  show ?thesis
    by (cases "totalQuestions d") (simp_all add: generate_learning_message_eq t r resolved_total_eq)
qed

subsection \<open>The lines of the composed report\<close>

lemma unlines_Nil: "unlines [] = []"
  by (simp add: unlines_def)

lemma unlines_Cons: "unlines (l # ls) = l @ newline # unlines ls"
  by (simp add: unlines_def)

lemma unlines_append: "unlines (xs @ ys) = unlines xs @ unlines ys"
  by (simp add: unlines_def)

lemma attitude_section_unlines:
  "attitude_section att tt =
     unlines [header_line attitude_head att, attitude_remark att,
              total_time_label @ fmt_1f (round_to_double (tt / 60)) @ total_time_unit, []]"
  by (simp add: attitude_section_def unlines_Cons unlines_Nil header_line_def attitude_remark_def)

lemma effectiveness_section_unlines:
  "effectiveness_section eff c w u =
     unlines ([header_line effectiveness_head eff, effectiveness_remark eff,
               correct_label @ str_int c @ question_unit,
               wrong_label @ str_int w @ question_unit]
              @ (if 0 < u then [unanswered_label @ str_int u @ question_unit] else [])
              @ [[]])"
  by (simp add: effectiveness_section_def unlines_Cons unlines_Nil header_line_def
      effectiveness_remark_def)

lemma concentration_section_unlines:
  "concentration_section con avg =
     unlines [header_line concentration_head con, pace_remark avg,
              avg_time_label @ fmt_1f avg @ avg_time_unit, []]"
  by (simp add: concentration_section_def unlines_Cons unlines_Nil header_line_def pace_remark_def)

lemma personal_advice_unlines:
  "personal_advice u n att eff avg = unlines [advice_heading, personal_tip u n att eff avg]"
  by (simp add: personal_advice_def unlines_Cons unlines_Nil personal_tip_def)

lemma report_text_unlines:
  "report_text d n a = unlines (report_lines d n) @ ai_marker @ a"
proof -
  have "report_text d n a =
      unlines [report_title, []]
      @ unlines [header_line attitude_head (attitudeScore d), attitude_remark (attitudeScore d),
              total_time_label @ fmt_1f (round_to_double (totalTime d / 60)) @ total_time_unit, []]
      @ unlines ([header_line effectiveness_head (effectivenessScore d),
               effectiveness_remark (effectivenessScore d),
               correct_label @ str_int (correctCount d) @ question_unit,
               wrong_label @ str_int (wrongCount d) @ question_unit]
              @ (if 0 < unansweredCount d
                 then [unanswered_label @ str_int (unansweredCount d) @ question_unit] else [])
              @ [[]])
      @ unlines [header_line concentration_head (concentrationScore d),
                 pace_remark (avgAnswerTime d),
                 avg_time_label @ fmt_1f (avgAnswerTime d) @ avg_time_unit, []]
      @ unlines [advice_heading, personal_tip (unansweredCount d) n (attitudeScore d)
                   (effectivenessScore d) (avgAnswerTime d)]
      @ unlines [[], closing_line, []] @ ai_marker @ a"
    unfolding report_text_def attitude_section_unlines effectiveness_section_unlines
      concentration_section_unlines personal_advice_unlines
    by (simp add: unlines_Cons unlines_Nil)
  also have "\<dots> = unlines (report_lines d n) @ ai_marker @ a"
    unfolding unlines_append [symmetric] append_assoc [symmetric] report_lines_def
    by simp
  finally show ?thesis .
qed

lemma split_lines_not_Nil: "split_lines s \<noteq> []"
  by (induction s) (auto split: list.splits)

lemma split_lines_line:
  "newline \<notin> set l \<Longrightarrow> split_lines (l @ newline # r) = l # split_lines r"
  by (induction l) auto

lemma split_lines_no_newline: "newline \<notin> set l \<Longrightarrow> split_lines l = [l]"
  by (induction l) auto

lemma split_lines_unlines:
  "(\<forall>l \<in> set ls. newline \<notin> set l) \<Longrightarrow> split_lines (unlines ls @ r) = ls @ split_lines r"
  by (induction ls) (simp_all add: unlines_Nil unlines_Cons split_lines_line)

lemma str_nat_digits: "set (str_nat n) \<subseteq> {0x30..0x39}"
proof (induction n rule: str_nat.induct)
  case (1 n)
  show ?case
  proof (cases "n < 10")
    case True
    then show ?thesis by (subst str_nat.simps) simp
  next
    case False
    have "n mod 10 < 10" by simp
    then have "0x30 + n mod 10 \<in> {0x30..0x39}" by simp
    then show ?thesis
      using False "1.IH" by (subst str_nat.simps) simp
  qed
qed

lemma str_nat_not_Nil: "str_nat n \<noteq> []"
  by (subst str_nat.simps) simp

lemma newline_str_nat: "newline \<notin> set (str_nat n)"
  using str_nat_digits [of n] by (auto simp: newline_def)

lemma newline_str_int: "newline \<notin> set (str_int i)"
  using newline_str_nat by (simp add: str_int_def newline_def)

lemma newline_fmt_1f: "newline \<notin> set (fmt_1f x)"
  using newline_str_nat by (simp add: fmt_1f_def Let_def newline_def)

lemma set_get_star_rating: "set (get_star_rating s) \<subseteq> {filled_glyph, empty_glyph}"
  by (auto simp: get_star_rating_def)

lemma newline_get_star_rating: "newline \<notin> set (get_star_rating s)"
  using set_get_star_rating [of s] by (auto simp: newline_def filled_glyph_def empty_glyph_def)

lemmas literal_defs =
  report_title_def attitude_head_def score_open_def score_close_def
  attitude_remark_high_def attitude_remark_mid_def attitude_remark_low_def
  total_time_label_def total_time_unit_def effectiveness_head_def
  effectiveness_remark_top_def effectiveness_remark_good_def
  effectiveness_remark_fair_def effectiveness_remark_low_def correct_label_def
  question_unit_def wrong_label_def unanswered_label_def concentration_head_def
  pace_remark_fast_def pace_remark_steady_def pace_remark_slow_def avg_time_label_def
  avg_time_unit_def advice_heading_def tip_time_management_def tip_focus_def
  tip_review_def tip_speed_def tip_encouragement_def closing_line_def ai_marker_def

lemma newline_literals:
  "newline \<notin> set report_title" "newline \<notin> set attitude_head" "newline \<notin> set score_open"
  "newline \<notin> set score_close" "newline \<notin> set attitude_remark_high"
  "newline \<notin> set attitude_remark_mid" "newline \<notin> set attitude_remark_low"
  "newline \<notin> set total_time_label" "newline \<notin> set total_time_unit"
  "newline \<notin> set effectiveness_head" "newline \<notin> set effectiveness_remark_top"
  "newline \<notin> set effectiveness_remark_good" "newline \<notin> set effectiveness_remark_fair"
  "newline \<notin> set effectiveness_remark_low" "newline \<notin> set correct_label"
  "newline \<notin> set question_unit" "newline \<notin> set wrong_label"
  "newline \<notin> set unanswered_label" "newline \<notin> set concentration_head"
  "newline \<notin> set pace_remark_fast" "newline \<notin> set pace_remark_steady"
  "newline \<notin> set pace_remark_slow" "newline \<notin> set avg_time_label"
  "newline \<notin> set avg_time_unit" "newline \<notin> set advice_heading"
  "newline \<notin> set tip_time_management" "newline \<notin> set tip_focus"
  "newline \<notin> set tip_review" "newline \<notin> set tip_speed"
  "newline \<notin> set tip_encouragement" "newline \<notin> set closing_line"
  "newline \<notin> set ai_marker"
  by (simp_all add: newline_def report_title_def attitude_head_def score_open_def
      score_close_def attitude_remark_high_def attitude_remark_mid_def
      attitude_remark_low_def total_time_label_def total_time_unit_def
      effectiveness_head_def effectiveness_remark_top_def effectiveness_remark_good_def
      effectiveness_remark_fair_def effectiveness_remark_low_def correct_label_def
      question_unit_def wrong_label_def unanswered_label_def concentration_head_def
      pace_remark_fast_def pace_remark_steady_def pace_remark_slow_def avg_time_label_def
      avg_time_unit_def advice_heading_def tip_time_management_def tip_focus_def
      tip_review_def tip_speed_def tip_encouragement_def closing_line_def ai_marker_def)

lemma newline_report_lines: "\<forall>l \<in> set (report_lines d n). newline \<notin> set l"
  by (simp add: report_lines_def header_line_def attitude_remark_def effectiveness_remark_def
      pace_remark_def personal_tip_def newline_literals newline_fmt_1f newline_str_int
      newline_get_star_rating)

lemma lines_of_message:
  "split_lines (snd (generate_learning_message d a)) =
     report_lines d (resolved_total d) @ split_lines (ai_marker @ a)"
  by (simp add: generate_learning_message_eq report_text_unlines split_lines_unlines
      newline_report_lines)

lemma length_report_lines:
  "length (report_lines d n) = (if 0 < unansweredCount d then 21 else 20)"
  by (simp add: report_lines_def)

lemma report_lines_nth:
  "report_lines d n ! 8 = correct_label @ str_int (correctCount d) @ question_unit"
  "report_lines d n ! 9 = wrong_label @ str_int (wrongCount d) @ question_unit"
  "report_lines d n ! 10 =
     (if 0 < unansweredCount d
      then unanswered_label @ str_int (unansweredCount d) @ question_unit else [])"
  "report_lines d n ! (if 0 < unansweredCount d then 12 else 11) =
     header_line concentration_head (concentrationScore d)"
  "report_lines d n ! (if 0 < unansweredCount d then 13 else 12) = pace_remark (avgAnswerTime d)"
  "report_lines d n ! (if 0 < unansweredCount d then 16 else 15) = advice_heading"
  "report_lines d n ! (if 0 < unansweredCount d then 17 else 16) =
     personal_tip (unansweredCount d) n (attitudeScore d) (effectivenessScore d)
       (avgAnswerTime d)"
  by (simp_all add: report_lines_def)

lemma message_line:
  "k < (if 0 < unansweredCount d then 21 else 20) \<Longrightarrow>
     split_lines (snd (generate_learning_message d a)) ! k
       = report_lines d (resolved_total d) ! k"
  by (simp add: lines_of_message nth_append length_report_lines)

text \<open>
  C4, as stated, fails: a session that arrives with a number under \<^verbatim>\<open>totalQuestions\<close>
  keeps that number, here 100 for counts that add up to 5, and the composer works with
  it: 5 unanswered questions are not more than three tenths of 100, so the advice is the
  encouragement, where the sum of the counts would have given the tip on time.
\<close>

theorem total_questions_supplied_counterexample:
  "totalQuestions (fst (generate_learning_message supplied_total_session [])) = Number 100
   \<and> correctCount supplied_total_session + wrongCount supplied_total_session
       + unansweredCount supplied_total_session = 5
   \<and> split_lines (unity_notify_message (SessionPayload supplied_total_session) []) ! 17
       = tip_encouragement
   \<and> split_lines (unity_notify_message
                    (SessionPayload (supplied_total_session\<lparr>totalQuestions := Number 5\<rparr>)) [])
         ! 17
       = tip_time_management"
proof -
  have a: "totalQuestions (fst (generate_learning_message supplied_total_session [])) = Number 100"
    by (simp add: generate_learning_message_eq resolved_total_eq supplied_total_session_def)
  have b: "correctCount supplied_total_session + wrongCount supplied_total_session
       + unansweredCount supplied_total_session = 5"
    by (simp add: supplied_total_session_def)
  have u: "0 < unansweredCount (supplied_total_session\<lparr>totalQuestions := Number n\<rparr>)" for n
    by (simp add: supplied_total_session_def)
  have l: "split_lines (snd (generate_learning_message
                               (supplied_total_session\<lparr>totalQuestions := Number n\<rparr>) [])) ! 17
      = personal_tip 5 n 85 92 12" for n
    using message_line [of 17 "supplied_total_session\<lparr>totalQuestions := Number n\<rparr>" "[]"]
      report_lines_nth(7) [of "supplied_total_session\<lparr>totalQuestions := Number n\<rparr>" n] u [of n]
    by (simp add: resolved_total_eq) (simp add: supplied_total_session_def)
  have s: "supplied_total_session\<lparr>totalQuestions := Number 100\<rparr> = supplied_total_session"
    by (simp add: supplied_total_session_def)
  have c: "split_lines (unity_notify_message (SessionPayload supplied_total_session) []) ! 17
       = tip_encouragement"
    using l [of 100] by (simp add: s unity_notify_message_def personal_tip_def)
  have d: "split_lines (unity_notify_message
                    (SessionPayload (supplied_total_session\<lparr>totalQuestions := Number 5\<rparr>)) [])
         ! 17 = tip_time_management"
    using l [of 5] by (simp add: unity_notify_message_def personal_tip_def)
  show ?thesis using a b c d by blast
qed

text \<open>
  C4, amended. After the composer has run, \<^verbatim>\<open>totalQuestions\<close> is the sum of the three
  counts when the session carried the lambda, as every session of
  \<^verbatim>\<open>generate_fake_data\<close> does, and it is the number the session carried otherwise; the
  message is built with that same number.
\<close>

theorem total_questions_resolved:
  "totalQuestions (fst (generate_learning_message d a)) =
     (case totalQuestions d of
        Callable \<Rightarrow> Number (correctCount d + wrongCount d + unansweredCount d)
      | Number n \<Rightarrow> Number n)
   \<and> totalQuestions (fst (generate_learning_message (generate_fake_data tt att eff con c w u avg) a))
       = Number (c + w + u)
   \<and> snd (generate_learning_message d a) =
       report_text d
         (case totalQuestions d of
            Callable \<Rightarrow> correctCount d + wrongCount d + unansweredCount d
          | Number n \<Rightarrow> n)
         a"
proof -
  have a: "totalQuestions (fst (generate_learning_message d a)) =
     (case totalQuestions d of
        Callable \<Rightarrow> Number (correctCount d + wrongCount d + unansweredCount d)
      | Number n \<Rightarrow> Number n)"
    by (simp add: generate_learning_message_eq resolved_total_eq split: total_questions.splits)
  have b: "totalQuestions (fst (generate_learning_message
                                   (generate_fake_data tt att eff con c w u avg) a))
       = Number (c + w + u)"
    by (simp add: generate_learning_message_eq resolved_total_eq generate_fake_data_def)
  have c: "snd (generate_learning_message d a) =
       report_text d
         (case totalQuestions d of
            Callable \<Rightarrow> correctCount d + wrongCount d + unansweredCount d
          | Number n \<Rightarrow> n)
         a"
    by (simp add: generate_learning_message_eq resolved_total_eq)
  show ?thesis using a b c by blast
qed

text \<open>
  C5. The line after the heading of the personal advice is chosen by the first condition
  that holds, in this order: more unanswered questions than three tenths of
  \<^verbatim>\<open>totalQuestions\<close> (the number the composer works with), whatever the scores; attitude
  below 60 and effectiveness below 70; effectiveness below 70; average answer time above
  30; otherwise the encouragement. The heading is line 15 of the message, counted from 0,
  or line 16 when the line of the unanswered questions is present.
\<close>

theorem personal_advice_priority:
  "split_lines (snd (generate_learning_message d a)) ! (if 0 < unansweredCount d then 16 else 15)
     = advice_heading
   \<and> split_lines (snd (generate_learning_message d a)) ! (if 0 < unansweredCount d then 17 else 16)
     = (if rat_of_int (case totalQuestions d of
                         Callable \<Rightarrow> correctCount d + wrongCount d + unansweredCount d
                       | Number n \<Rightarrow> n) * (3 / 10)
           < rat_of_int (unansweredCount d)
        then tip_time_management
        else if attitudeScore d < 60 \<and> effectivenessScore d < 70 then tip_focus
        else if effectivenessScore d < 70 then tip_review
        else if 30 < avgAnswerTime d then tip_speed
        else tip_encouragement)"
proof -
  have a: "split_lines (snd (generate_learning_message d a)) ! (if 0 < unansweredCount d then 16 else 15)
      = report_lines d (resolved_total d) ! (if 0 < unansweredCount d then 16 else 15)"
    by (rule message_line) simp
  have b: "split_lines (snd (generate_learning_message d a)) ! (if 0 < unansweredCount d then 17 else 16)
      = report_lines d (resolved_total d) ! (if 0 < unansweredCount d then 17 else 16)"
    by (rule message_line) simp
  show ?thesis
    unfolding a b report_lines_nth personal_tip_def resolved_total_eq by simp
qed

text \<open>
  The theorem at two sessions: the sample session gets the encouragement, and the session
  with half of its questions unanswered gets the tip on time although its scores are low.
\<close>

theorem personal_advice_priority_witness:
  "split_lines (snd (generate_learning_message sample_session plain_advice)) ! 15 = advice_heading
   \<and> split_lines (snd (generate_learning_message sample_session plain_advice)) ! 16
       = tip_encouragement
   \<and> split_lines (snd (generate_learning_message hurried_session plain_advice)) ! 16
       = advice_heading
   \<and> split_lines (snd (generate_learning_message hurried_session plain_advice)) ! 17
       = tip_time_management"
  using personal_advice_priority [of sample_session plain_advice]
    personal_advice_priority [of hurried_session plain_advice]
  by (simp add: sample_session_def hurried_session_def)

text \<open>
  C6. The remark of the third section, the line after its heading, is chosen from the
  average answer time alone: at most 10, at most 30, or more. The concentration score
  appears in the heading of the section, in the stars and in the number, and changing it
  leaves the remark as it is.
\<close>

theorem concentration_remark_by_time:
  "split_lines (snd (generate_learning_message d a)) ! (if 0 < unansweredCount d then 13 else 12)
     = (if avgAnswerTime d \<le> 10 then pace_remark_fast
        else if avgAnswerTime d \<le> 30 then pace_remark_steady
        else pace_remark_slow)
   \<and> split_lines (snd (generate_learning_message d a)) ! (if 0 < unansweredCount d then 12 else 11)
     = concentration_head @ get_star_rating (concentrationScore d) @ score_open
         @ fmt_1f (concentrationScore d) @ score_close
   \<and> split_lines (snd (generate_learning_message (d\<lparr>concentrationScore := x\<rparr>) a))
         ! (if 0 < unansweredCount d then 13 else 12)
     = split_lines (snd (generate_learning_message d a)) ! (if 0 < unansweredCount d then 13 else 12)"
proof -
  have a: "split_lines (snd (generate_learning_message d a)) ! (if 0 < unansweredCount d then 13 else 12)
      = report_lines d (resolved_total d) ! (if 0 < unansweredCount d then 13 else 12)" for d
    by (rule message_line) simp
  have b: "split_lines (snd (generate_learning_message d a)) ! (if 0 < unansweredCount d then 12 else 11)
      = report_lines d (resolved_total d) ! (if 0 < unansweredCount d then 12 else 11)"
    by (rule message_line) simp
  have c: "split_lines (snd (generate_learning_message (d\<lparr>concentrationScore := x\<rparr>) a))
         ! (if 0 < unansweredCount d then 13 else 12) = pace_remark (avgAnswerTime d)"
    using a [of "d\<lparr>concentrationScore := x\<rparr>"] report_lines_nth(5) [of "d\<lparr>concentrationScore := x\<rparr>"]
    by simp
  show ?thesis
    unfolding c unfolding a b report_lines_nth pace_remark_def header_line_def by simp
qed

text \<open>
  The theorem at two sessions: an average answer time of 12 gives the steady remark, also
  after the concentration score is changed from 70 to 10, and one of 40 the slow remark.
\<close>

theorem concentration_remark_by_time_witness:
  "split_lines (snd (generate_learning_message sample_session plain_advice)) ! 12
     = pace_remark_steady
   \<and> split_lines (snd (generate_learning_message
                          (sample_session\<lparr>concentrationScore := 10\<rparr>) plain_advice)) ! 12
     = pace_remark_steady
   \<and> split_lines (snd (generate_learning_message hurried_session plain_advice)) ! 13
     = pace_remark_slow"
  using concentration_remark_by_time [of sample_session plain_advice 10]
    concentration_remark_by_time [of hurried_session plain_advice 10]
  by (simp add: sample_session_def hurried_session_def)

lemma startswith_append_self: "startswith (p @ s) p"
  by (induction p) simp_all

lemma literal_not_Nil:
  "report_title \<noteq> []" "attitude_head \<noteq> []" "score_open \<noteq> []"
  "score_close \<noteq> []" "attitude_remark_high \<noteq> []"
  "attitude_remark_mid \<noteq> []" "attitude_remark_low \<noteq> []"
  "total_time_label \<noteq> []" "total_time_unit \<noteq> []"
  "effectiveness_head \<noteq> []" "effectiveness_remark_top \<noteq> []"
  "effectiveness_remark_good \<noteq> []" "effectiveness_remark_fair \<noteq> []"
  "effectiveness_remark_low \<noteq> []" "correct_label \<noteq> []"
  "question_unit \<noteq> []" "wrong_label \<noteq> []" "unanswered_label \<noteq> []"
  "concentration_head \<noteq> []" "pace_remark_fast \<noteq> []"
  "pace_remark_steady \<noteq> []" "pace_remark_slow \<noteq> []"
  "avg_time_label \<noteq> []" "avg_time_unit \<noteq> []" "advice_heading \<noteq> []"
  "tip_time_management \<noteq> []" "tip_focus \<noteq> []" "tip_review \<noteq> []"
  "tip_speed \<noteq> []" "tip_encouragement \<noteq> []" "closing_line \<noteq> []"
  "ai_marker \<noteq> []"
  by (simp_all add: literal_defs)

lemma literal_hd:
  "hd report_title = 0x1F393" "hd attitude_head = 0x2776" "hd score_open = 0x20"
  "hd score_close = 0x5206" "hd attitude_remark_high = 0x1F31F"
  "hd attitude_remark_mid = 0x1F44D" "hd attitude_remark_low = 0x1F914"
  "hd total_time_label = 0x23F0" "hd total_time_unit = 0x5206"
  "hd effectiveness_head = 0x2777" "hd effectiveness_remark_top = 0x1F3C6"
  "hd effectiveness_remark_good = 0x2728" "hd effectiveness_remark_fair = 0x1F4A1"
  "hd effectiveness_remark_low = 0x1F4DA" "hd correct_label = 0x2705"
  "hd question_unit = 0x984C" "hd wrong_label = 0x274C" "hd unanswered_label = 0x23F8"
  "hd concentration_head = 0x2778" "hd pace_remark_fast = 0x26A1"
  "hd pace_remark_steady = 0x23F1" "hd pace_remark_slow = 0x1F40C"
  "hd avg_time_label = 0x1F550" "hd avg_time_unit = 0x79D2"
  "hd advice_heading = 0x1F4AD" "hd tip_time_management = 0x23F0"
  "hd tip_focus = 0x1F3AF" "hd tip_review = 0x1F4D6" "hd tip_speed = 0x26A1"
  "hd tip_encouragement = 0x1F308" "hd closing_line = 0x1F680" "hd ai_marker = 0x1F916"
  by (simp_all add: literal_defs)

lemma literal_last:
  "last report_title = 0xFF01" "last attitude_head = 0x5EA6" "last score_open = 0x28"
  "last score_close = 0x29" "last attitude_remark_high = 0xFF01"
  "last attitude_remark_mid = 0xFF01" "last attitude_remark_low = 0xFF01"
  "last total_time_label = 0xFF1A" "last total_time_unit = 0x9418"
  "last effectiveness_head = 0x6548" "last effectiveness_remark_top = 0xFF01"
  "last effectiveness_remark_good = 0xFF01" "last effectiveness_remark_fair = 0xFF01"
  "last effectiveness_remark_low = 0xFF01" "last correct_label = 0xFF1A"
  "last question_unit = 0x984C" "last wrong_label = 0xFF1A"
  "last unanswered_label = 0xFF1A" "last concentration_head = 0x5EA6"
  "last pace_remark_fast = 0xFF01" "last pace_remark_steady = 0xFF01"
  "last pace_remark_slow = 0xFF01" "last avg_time_label = 0xFF1A"
  "last avg_time_unit = 0x79D2" "last advice_heading = 0xFF1A"
  "last tip_time_management = 0xFF01" "last tip_focus = 0xFF01"
  "last tip_review = 0xFF01" "last tip_speed = 0xFF01" "last tip_encouragement = 0xFF01"
  "last closing_line = 0xFF01" "last ai_marker = 0xFF1A"
  by (simp_all add: literal_defs)

lemma not_unanswered_hd: "(l \<noteq> [] \<longrightarrow> hd l \<noteq> 0x23F8) \<Longrightarrow> \<not> startswith l unanswered_label"
  by (cases l) (simp_all add: unanswered_label_def)

lemma not_unanswered_lines:
  "\<not> startswith [] unanswered_label"
  "\<not> startswith report_title unanswered_label"
  "\<not> startswith (header_line attitude_head sc) unanswered_label"
  "\<not> startswith (header_line effectiveness_head sc) unanswered_label"
  "\<not> startswith (header_line concentration_head sc) unanswered_label"
  "\<not> startswith (attitude_remark x) unanswered_label"
  "\<not> startswith (effectiveness_remark x) unanswered_label"
  "\<not> startswith (pace_remark x) unanswered_label"
  "\<not> startswith (personal_tip u n att eff avg) unanswered_label"
  "\<not> startswith (total_time_label @ r) unanswered_label"
  "\<not> startswith (correct_label @ r) unanswered_label"
  "\<not> startswith (wrong_label @ r) unanswered_label"
  "\<not> startswith (avg_time_label @ r) unanswered_label"
  "\<not> startswith advice_heading unanswered_label"
  "\<not> startswith closing_line unanswered_label"
  by (rule not_unanswered_hd,
      simp add: header_line_def attitude_remark_def effectiveness_remark_def pace_remark_def
        personal_tip_def literal_not_Nil literal_hd)+

lemma own_lines_no_unanswered:
  "\<not> 0 < unansweredCount d \<Longrightarrow>
     \<forall>l \<in> set (report_lines d n). \<not> startswith l unanswered_label"
  by (simp add: report_lines_def not_unanswered_lines)

text \<open>
  C7, as stated, fails: the advice of the advisor is written into the report as it is,
  so a report for a session without unanswered questions has a line with the marker of
  the unanswered count when the advice has one, here as line 21.
\<close>

theorem unanswered_line_counterexample:
  "unansweredCount sample_session = 0
   \<and> length (split_lines (snd (generate_learning_message sample_session marker_advice))) = 22
   \<and> split_lines (snd (generate_learning_message sample_session marker_advice)) ! 21
       = unanswered_label @ [0x39] @ question_unit
   \<and> startswith (split_lines (snd (generate_learning_message sample_session marker_advice)) ! 21)
         unanswered_label"
proof -
  have u: "unansweredCount sample_session = 0"
    by (simp add: sample_session_def)
  have sp: "split_lines (ai_marker @ marker_advice)
      = [ai_marker @ [0x78], unanswered_label @ [0x39] @ question_unit]"
    by (simp add: ai_marker_def marker_advice_def newline_def unanswered_label_def
        question_unit_def)
  have len: "length (report_lines sample_session (resolved_total sample_session)) = 20"
    using u by (simp add: length_report_lines)
  have l: "split_lines (snd (generate_learning_message sample_session marker_advice))
      = report_lines sample_session (resolved_total sample_session)
        @ [ai_marker @ [0x78], unanswered_label @ [0x39] @ question_unit]"
    unfolding lines_of_message sp ..
  have n: "split_lines (snd (generate_learning_message sample_session marker_advice)) ! 21
       = unanswered_label @ [0x39] @ question_unit"
    unfolding l using len by (simp add: nth_append)
  have st: "startswith (unanswered_label @ [0x39] @ question_unit) unanswered_label"
    by (rule startswith_append_self)
  have ln: "length (split_lines (snd (generate_learning_message sample_session marker_advice))) = 22"
    unfolding l using len by simp
  show ?thesis using u ln n st by simp
qed

text \<open>
  C7, amended. Lines 8 and 9 of the message are always the counts of right and wrong
  answers. Line 10 is the count of unanswered questions when that count is positive and
  the empty line that ends the section otherwise. Among the lines that the composer
  writes itself, which are the first 21 or 20, one starts with the marker of the
  unanswered count if and only if the count is positive; the lines after them are the
  advice of the advisor behind its marker, whatever it holds.
\<close>

theorem unanswered_line_iff:
  "split_lines (snd (generate_learning_message d a)) ! 8
     = correct_label @ str_int (correctCount d) @ question_unit
   \<and> split_lines (snd (generate_learning_message d a)) ! 9
     = wrong_label @ str_int (wrongCount d) @ question_unit
   \<and> split_lines (snd (generate_learning_message d a)) ! 10
     = (if 0 < unansweredCount d
        then unanswered_label @ str_int (unansweredCount d) @ question_unit else [])
   \<and> ((\<exists>i. i < (if 0 < unansweredCount d then 21 else 20)
            \<and> startswith (split_lines (snd (generate_learning_message d a)) ! i)
                 unanswered_label)
        \<longleftrightarrow> 0 < unansweredCount d)
   \<and> drop (if 0 < unansweredCount d then 21 else 20)
        (split_lines (snd (generate_learning_message d a)))
     = split_lines (ai_marker @ a)"
proof -
  let ?ls = "split_lines (snd (generate_learning_message d a))"
  let ?own = "report_lines d (resolved_total d)"
  let ?n = "if 0 < unansweredCount d then 21 else 20"
  have len: "length ?own = ?n"
    by (rule length_report_lines)
  have own: "i < ?n \<Longrightarrow> ?ls ! i = ?own ! i" for i
    by (rule message_line)
  have l8: "?ls ! 8 = correct_label @ str_int (correctCount d) @ question_unit"
    using own [of 8] by (simp add: report_lines_nth)
  have l9: "?ls ! 9 = wrong_label @ str_int (wrongCount d) @ question_unit"
    using own [of 9] by (simp add: report_lines_nth)
  have l10: "?ls ! 10 = (if 0 < unansweredCount d
        then unanswered_label @ str_int (unansweredCount d) @ question_unit else [])"
    using own [of 10] by (simp add: report_lines_nth)
  have ex: "(\<exists>i. i < ?n \<and> startswith (?ls ! i) unanswered_label) \<longleftrightarrow> 0 < unansweredCount d"
  proof (cases "0 < unansweredCount d")
    case True
    have "(10::nat) < ?n \<and> startswith (?ls ! 10) unanswered_label"
      using True l10 by (simp add: startswith_append_self)
    then show ?thesis using True by blast
  next
    case False
    have "\<not> startswith (?ls ! i) unanswered_label" if "i < ?n" for i
    proof -
      have "?own ! i \<in> set ?own" using that len by (metis nth_mem)
      then show ?thesis
        using own_lines_no_unanswered [OF False, of "resolved_total d"] own [OF that] by simp
    qed
    then show ?thesis using False by blast
  qed
  have dr: "drop ?n ?ls = split_lines (ai_marker @ a)"
    using len by (simp add: lines_of_message)
  show ?thesis using l8 l9 l10 ex dr by blast
qed

text \<open>
  The theorem at two sessions: with no unanswered question line 10 is empty and no line of
  the composer starts with the marker; with five of them line 10 is their count.
\<close>

theorem unanswered_line_iff_witness:
  "split_lines (snd (generate_learning_message sample_session plain_advice)) ! 8
     = correct_label @ [0x31, 0x30] @ question_unit
   \<and> split_lines (snd (generate_learning_message sample_session plain_advice)) ! 9
     = wrong_label @ [0x32] @ question_unit
   \<and> split_lines (snd (generate_learning_message sample_session plain_advice)) ! 10 = []
   \<and> \<not> (\<exists>i. i < 20
            \<and> startswith (split_lines (snd (generate_learning_message sample_session plain_advice)) ! i)
                 unanswered_label)
   \<and> split_lines (snd (generate_learning_message hurried_session plain_advice)) ! 10
     = unanswered_label @ [0x35] @ question_unit"
  using unanswered_line_iff [of sample_session plain_advice]
    unanswered_line_iff [of hurried_session plain_advice]
  by (simp add: sample_session_def hurried_session_def str_int_def str_nat.simps)

subsection \<open>Trimming, searching and removing\<close>

lemma dropWhile_hd_id: "l \<noteq> [] \<Longrightarrow> \<not> P (hd l) \<Longrightarrow> dropWhile P l = l"
  by (cases l) simp_all

lemma strip_Nil: "strip [] = []"
  by (simp add: strip_def lstrip_def rstrip_def)

lemma lstrip_id: "l \<noteq> [] \<Longrightarrow> \<not> py_isspace (hd l) \<Longrightarrow> lstrip l = l"
  by (simp add: lstrip_def dropWhile_hd_id)

lemma rstrip_id: "l \<noteq> [] \<Longrightarrow> \<not> py_isspace (last l) \<Longrightarrow> rstrip l = l"
  using dropWhile_hd_id [of "rev l" py_isspace] by (simp add: rstrip_def hd_rev)

lemma strip_id:
  "l \<noteq> [] \<Longrightarrow> \<not> py_isspace (hd l) \<Longrightarrow> \<not> py_isspace (last l) \<Longrightarrow> strip l = l"
  by (simp add: strip_def lstrip_id rstrip_id)

lemma rstrip_append_right:
  assumes "m \<noteq> []" "\<not> py_isspace (last m)"
  shows "rstrip (m @ a) = m @ rstrip a"
proof (cases "\<forall>x \<in> set a. py_isspace x")
  case True
  then have "dropWhile py_isspace (rev a @ rev m) = dropWhile py_isspace (rev m)"
    by (intro dropWhile_append2) simp
  moreover have "dropWhile py_isspace (rev m) = rev m"
    using assms dropWhile_hd_id [of "rev m" py_isspace] by (simp add: hd_rev)
  moreover have "dropWhile py_isspace (rev a) = []"
    using True by simp
  ultimately show ?thesis by (simp add: rstrip_def)
next
  case False
  then obtain x where "x \<in> set (rev a)" "\<not> py_isspace x" by auto
  then have "dropWhile py_isspace (rev a @ rev m) = dropWhile py_isspace (rev a) @ rev m"
    by (rule dropWhile_append1)
  then show ?thesis by (simp add: rstrip_def)
qed

lemma strip_append_right:
  assumes "m \<noteq> []" "\<not> py_isspace (hd m)" "\<not> py_isspace (last m)"
  shows "strip (m @ a) = m @ rstrip a"
proof -
  have "lstrip (m @ a) = m @ a"
    using assms by (simp add: lstrip_id)
  then show ?thesis
    using assms by (simp add: strip_def rstrip_append_right)
qed

lemma rstrip_idem: "rstrip (rstrip a) = rstrip a"
  by (simp add: rstrip_def)

lemma rstrip_keeps_hd:
  assumes "\<not> py_isspace x"
  shows "\<exists>r. rstrip (x # b) = x # r"
proof -
  have "rstrip ([x] @ b) = [x] @ rstrip b"
    using assms by (intro rstrip_append_right) simp_all
  then show ?thesis by simp
qed

lemma lstrip_rstrip_commute: "lstrip (rstrip a) = rstrip (lstrip a)"
proof (cases "\<forall>x \<in> set a. py_isspace x")
  case True
  then have h: "dropWhile py_isspace a = []" "dropWhile py_isspace (rev a) = []"
    by simp_all
  show ?thesis unfolding lstrip_def rstrip_def h by simp
next
  case False
  define pre where "pre = takeWhile py_isspace a"
  define b where "b = dropWhile py_isspace a"
  have a: "a = pre @ b" by (simp add: pre_def b_def)
  have bne: "b \<noteq> []" using False by (simp add: b_def)
  have hb: "\<not> py_isspace (hd b)"
    using bne unfolding b_def by (rule hd_dropWhile)
  obtain x t where b: "b = x # t" using bne by (cases b) auto
  have nx: "\<not> py_isspace x" using hb b by simp
  have pre: "\<forall>y \<in> set pre. py_isspace y"
    unfolding pre_def by (meson set_takeWhileD)
  have "x \<in> set (rev b)" using b by simp
  then have "dropWhile py_isspace (rev b @ rev pre) = dropWhile py_isspace (rev b) @ rev pre"
    using nx by (rule dropWhile_append1)
  then have r: "rstrip a = pre @ rstrip b"
    by (simp add: a rstrip_def)
  obtain r' where r': "rstrip b = x # r'"
    using rstrip_keeps_hd [OF nx] b by blast
  have "lstrip (rstrip a) = dropWhile py_isspace (rstrip b)"
    using pre by (simp add: r lstrip_def dropWhile_append2)
  also have "\<dots> = rstrip b"
    using nx by (simp add: r')
  finally have l: "lstrip (rstrip a) = rstrip b" .
  have "lstrip a = b" by (simp add: lstrip_def b_def)
  then show ?thesis using l by simp
qed

lemma strip_rstrip: "strip (rstrip a) = strip a"
  by (simp add: strip_def lstrip_rstrip_commute rstrip_idem)

lemma rstrip_prefix: "\<exists>sfx. a = rstrip a @ sfx"
proof -
  have "rev a = takeWhile py_isspace (rev a) @ dropWhile py_isspace (rev a)"
    by simp
  then have "rev (rev a) = rev (takeWhile py_isspace (rev a) @ dropWhile py_isspace (rev a))"
    by simp
  then have "a = rstrip a @ rev (takeWhile py_isspace (rev a))"
    unfolding rstrip_def rev_append by simp
  then show ?thesis by blast
qed

lemma startswith_appendI: "startswith x p \<Longrightarrow> startswith (x @ y) p"
  by (induction x p rule: startswith.induct) simp_all

lemma contains_Nil_pattern: "contains s []"
  by (cases s) simp_all

lemma contains_appendI: "contains x p \<Longrightarrow> contains (x @ y) p"
proof (induction x)
  case Nil
  then show ?case by (simp add: contains_Nil_pattern)
next
  case (Cons c x)
  then show ?case
    using startswith_appendI [of "c # x" p y] by auto
qed

lemma contains_rstrip: "\<not> contains a p \<Longrightarrow> \<not> contains (rstrip a) p"
  using rstrip_prefix [of a] contains_appendI [of "rstrip a" p] by metis

lemma remove_all_absent: "\<not> contains s p \<Longrightarrow> remove_all p s = s"
proof (induction s)
  case Nil
  then show ?case by (simp add: remove_all.simps)
next
  case (Cons c s)
  then show ?case
    by (subst remove_all.simps) simp
qed

lemma remove_all_prefix:
  "p \<noteq> [] \<Longrightarrow> remove_all p (p @ s) = remove_all p s"
  by (subst remove_all.simps) (simp add: startswith_append_self)

subsection \<open>The parser on the composed report\<close>

lemma stars_add_line: "stars (add_line sec l) = stars sec"
  by (simp add: add_line_def)

lemma body_lineI:
  assumes "l \<noteq> []" "\<not> py_isspace (hd l)" "\<not> py_isspace (last l)"
    "hd l \<noteq> 0x2776" "hd l \<noteq> 0x2777" "hd l \<noteq> 0x2778" "hd l \<noteq> 0x1F916" "hd l \<noteq> 0x1F680"
  shows "body_line l"
proof -
  obtain c r where l: "l = c # r" using assms(1) by (cases l) auto
  have "strip l = l" using assms by (simp add: strip_id)
  then show ?thesis
    using assms l by (simp add: body_line_def is_section_line_def ai_marker_def rocket_def)
qed

lemma space_evals:
  "\<not> py_isspace 0xFF01" "\<not> py_isspace 0xFF1A" "\<not> py_isspace 0x29" "\<not> py_isspace 0x9418"
  "\<not> py_isspace 0x984C" "\<not> py_isspace 0x79D2"
  "\<not> py_isspace 0x1F393" "\<not> py_isspace 0x2776" "\<not> py_isspace 0x2777" "\<not> py_isspace 0x2778"
  "\<not> py_isspace 0x1F31F" "\<not> py_isspace 0x1F44D" "\<not> py_isspace 0x1F914"
  "\<not> py_isspace 0x23F0" "\<not> py_isspace 0x1F3C6" "\<not> py_isspace 0x2728"
  "\<not> py_isspace 0x1F4A1" "\<not> py_isspace 0x1F4DA" "\<not> py_isspace 0x2705"
  "\<not> py_isspace 0x274C" "\<not> py_isspace 0x23F8" "\<not> py_isspace 0x26A1"
  "\<not> py_isspace 0x23F1" "\<not> py_isspace 0x1F40C" "\<not> py_isspace 0x1F550"
  "\<not> py_isspace 0x1F4AD" "\<not> py_isspace 0x1F3AF" "\<not> py_isspace 0x1F4D6"
  "\<not> py_isspace 0x1F308" "\<not> py_isspace 0x1F680" "\<not> py_isspace 0x1F916"
  by (simp_all add: py_isspace_def)

lemma body_lines:
  "body_line report_title"
  "body_line (attitude_remark x)"
  "body_line (effectiveness_remark x)"
  "body_line (pace_remark x)"
  "body_line (personal_tip u n att eff avg)"
  "body_line (total_time_label @ fmt_1f x @ total_time_unit)"
  "body_line (correct_label @ str_int i @ question_unit)"
  "body_line (wrong_label @ str_int i @ question_unit)"
  "body_line (unanswered_label @ str_int i @ question_unit)"
  "body_line (avg_time_label @ fmt_1f x @ avg_time_unit)"
  "body_line advice_heading"
  by (rule body_lineI;
      simp add: attitude_remark_def effectiveness_remark_def pace_remark_def personal_tip_def
        literal_not_Nil literal_hd literal_last space_evals)+

lemma parse_line_blank: "parse_line st [] = st"
  by (simp add: parse_line_def strip_Nil)

lemma parse_line_body_closed: "body_line l \<Longrightarrow> parse_line (d, None) l = (d, None)"
  by (simp add: parse_line_def body_line_def)

lemma parse_line_body: "body_line l \<Longrightarrow> parse_line (d, Some sec) l = (d, Some (add_line sec l))"
  by (simp add: parse_line_def body_line_def add_line_def)

lemma strip_header_line:
  "h \<noteq> [] \<Longrightarrow> \<not> py_isspace (hd h) \<Longrightarrow> strip (header_line h sc) = header_line h sc"
  by (rule strip_id) (simp_all add: header_line_def literal_not_Nil literal_last space_evals)

lemma section_header_lines:
  "is_section_line (header_line attitude_head sc)"
  "is_section_line (header_line effectiveness_head sc)"
  "is_section_line (header_line concentration_head sc)"
  by (simp_all add: is_section_line_def header_line_def attitude_head_def
      effectiveness_head_def concentration_head_def)

lemma parse_line_header:
  assumes "h \<noteq> []" "\<not> py_isspace (hd h)" "is_section_line (header_line h sc)"
  shows "parse_line (d, c) (header_line h sc)
       = (flush_section d c, Some (new_section (header_line h sc)))"
proof -
  have s: "strip (header_line h sc) = header_line h sc"
    using assms(1,2) by (rule strip_header_line)
  have n: "header_line h sc \<noteq> []"
    using assms(1) by (simp add: header_line_def)
  show ?thesis
    unfolding parse_line_def s Let_def using n assms(3) by simp
qed

lemma parse_line_headers:
  "parse_line (d, c) (header_line attitude_head sc)
     = (flush_section d c, Some (new_section (header_line attitude_head sc)))"
  "parse_line (d, c) (header_line effectiveness_head sc)
     = (flush_section d c, Some (new_section (header_line effectiveness_head sc)))"
  "parse_line (d, c) (header_line concentration_head sc)
     = (flush_section d c, Some (new_section (header_line concentration_head sc)))"
  by (rule parse_line_header; simp add: literal_not_Nil literal_hd space_evals section_header_lines)+

lemma parse_line_closing:
  "parse_line (d, c) closing_line = (d\<lparr>motivation := closing_line\<rparr>, c)"
proof -
  have s: "strip closing_line = closing_line"
    by (rule strip_id) (simp_all add: literal_not_Nil literal_hd literal_last space_evals)
  show ?thesis
    unfolding parse_line_def s Let_def
    by (simp add: closing_line_def is_section_line_def ai_marker_def rocket_def)
qed

lemma parse_line_ai:
  assumes "\<not> contains a ai_marker"
  shows "parse_line (d, c) (ai_marker @ a) = (d\<lparr>ai_advice := strip a\<rparr>, c)"
proof -
  have s: "strip (ai_marker @ a) = ai_marker @ rstrip a"
    by (rule strip_append_right)
      (simp_all add: literal_not_Nil literal_hd literal_last space_evals)
  have n: "(ai_marker @ rstrip a = []) = False"
    by (simp add: literal_not_Nil)
  have nsec: "\<not> is_section_line (ai_marker @ rstrip a)"
    by (simp add: is_section_line_def ai_marker_def)
  have r: "remove_all ai_marker (ai_marker @ rstrip a) = rstrip a"
    using assms by (simp add: remove_all_prefix literal_not_Nil remove_all_absent contains_rstrip)
  show ?thesis
    unfolding parse_line_def s Let_def fst_conv snd_conv n r
    using nsec by (simp add: startswith_append_self strip_rstrip)
qed

lemma star_glyphs: "is_star filled_glyph" "is_star empty_glyph" "\<not> is_star 0x20"
  by (simp_all add: is_star_def filled_glyph_def empty_glyph_def)

lemma get_star_rating_all_stars: "\<forall>x \<in> set (get_star_rating sc). is_star x"
  using set_get_star_rating [of sc] by (auto simp: is_star_def)

lemma get_star_rating_not_Nil: "get_star_rating sc \<noteq> []"
  using length_get_star_rating [of sc] by auto

lemma stars_match_after:
  assumes "\<forall>x \<in> set h. \<not> is_star x"
  shows "stars_match (h @ get_star_rating sc @ score_open @ r) = Some (get_star_rating sc)"
proof -
  let ?g = "get_star_rating sc"
  have g: "?g \<noteq> []" by (rule get_star_rating_not_Nil)
  have hg: "is_star (hd ?g)"
    using g get_star_rating_all_stars [of sc] by (simp add: hd_in_set)
  have d1: "dropWhile (\<lambda>x. \<not> is_star x) (h @ ?g @ score_open @ r)
      = dropWhile (\<lambda>x. \<not> is_star x) (?g @ score_open @ r)"
    using assms by (intro dropWhile_append2) simp
  have d2: "dropWhile (\<lambda>x. \<not> is_star x) (?g @ score_open @ r) = ?g @ score_open @ r"
    using g hg by (intro dropWhile_hd_id) simp_all
  have t: "takeWhile is_star (?g @ score_open @ r) = ?g"
    using get_star_rating_all_stars [of sc]
    by (simp add: score_open_def star_glyphs)
  show ?thesis
    unfolding stars_match_def d1 d2 Let_def using g by (simp add: t)
qed

lemma stars_match_header:
  "\<forall>x \<in> set h. \<not> is_star x \<Longrightarrow> stars_match (header_line h sc) = Some (get_star_rating sc)"
  unfolding header_line_def by (rule stars_match_after)

lemma heads_no_star:
  "\<forall>x \<in> set attitude_head. \<not> is_star x"
  "\<forall>x \<in> set effectiveness_head. \<not> is_star x"
  "\<forall>x \<in> set concentration_head. \<not> is_star x"
  by (simp_all add: attitude_head_def effectiveness_head_def concentration_head_def
      is_star_def filled_glyph_def empty_glyph_def)

lemma stars_new_section:
  "stars (new_section (header_line attitude_head sc)) = get_star_rating sc"
  "stars (new_section (header_line effectiveness_head sc)) = get_star_rating sc"
  "stars (new_section (header_line concentration_head sc)) = get_star_rating sc"
  by (simp_all add: new_section_def stars_match_header heads_no_star)

lemma parse_loop_append: "parse_loop st (xs @ ys) = parse_loop (parse_loop st xs) ys"
  by (induction xs arbitrary: st) simp_all

lemma flush_section_simps:
  "flush_section d None = d"
  "flush_section d (Some sec) = d\<lparr>sections := sections d @ [sec]\<rparr>"
  by (simp_all add: flush_section_def)

lemma parse_loop_report_lines:
  assumes "\<not> contains a ai_marker"
  shows "parse_loop (\<lparr>sections = [], ai_advice = [], motivation = []\<rparr>, None)
           (report_lines d n @ [ai_marker @ a]) =
     (\<lparr>sections = [parsed_attitude d, parsed_effectiveness d],
       ai_advice = strip a, motivation = closing_line\<rparr>,
      Some (parsed_concentration d n))"
  using assms
  by (simp add: report_lines_def parse_loop_append parsed_attitude_def
      parsed_effectiveness_def parsed_concentration_def
      parse_line_blank parse_line_body_closed parse_line_body parse_line_headers
      parse_line_closing parse_line_ai body_lines flush_section_simps)

lemma parse_report_lines:
  assumes "\<not> contains a ai_marker"
  shows "parse_learning_data (report_lines d n @ [ai_marker @ a]) =
     \<lparr>sections = [parsed_attitude d, parsed_effectiveness d, parsed_concentration d n],
      ai_advice = strip a, motivation = closing_line\<rparr>"
  unfolding parse_learning_data_def parse_loop_report_lines [OF assms] Let_def
  by (simp add: flush_section_simps)

lemma stars_foldl_add_line: "stars (foldl add_line sec ls) = stars sec"
  by (induction ls arbitrary: sec) (simp_all add: stars_add_line)

lemma stars_parsed:
  "stars (parsed_attitude d) = get_star_rating (attitudeScore d)"
  "stars (parsed_effectiveness d) = get_star_rating (effectivenessScore d)"
  "stars (parsed_concentration d n) = get_star_rating (concentrationScore d)"
  unfolding parsed_attitude_def parsed_effectiveness_def parsed_concentration_def
    stars_foldl_add_line
  by (rule stars_new_section)+

lemma floor_rat_numeral_div: "\<lfloor>(numeral a :: rat) / numeral b\<rfloor> = numeral a div numeral b"
  by (metis floor_divide_of_int_eq of_int_numeral)

text \<open>
  C2, as stated, fails: the parser works line by line, so of an advice with a line feed
  in it only the first line comes back as the advice.
\<close>

theorem report_round_trip_counterexample:
  "ai_advice (parse_learning_data
                (split_lines (snd (generate_learning_message sample_session two_line_advice))))
     = [0x61]
   \<and> strip two_line_advice = [0x61, 0xA, 0x62]"
proof -
  have sp: "split_lines (ai_marker @ two_line_advice) = [ai_marker @ [0x61], [0x62]]"
    by (simp add: ai_marker_def two_line_advice_def newline_def)
  have c: "\<not> contains [0x61] ai_marker"
    by (simp add: ai_marker_def)
  have b: "body_line [0x62]"
    by (rule body_lineI) (simp_all add: py_isspace_def)
  have s1: "strip [0x61] = [0x61]"
    by (simp add: strip_def lstrip_def rstrip_def py_isspace_def)
  have s2: "strip two_line_advice = [0x61, 0xA, 0x62]"
    by (simp add: two_line_advice_def strip_def lstrip_def rstrip_def py_isspace_def)
  have l: "split_lines (snd (generate_learning_message sample_session two_line_advice))
      = (report_lines sample_session (resolved_total sample_session) @ [ai_marker @ [0x61]])
        @ [[0x62]]"
    unfolding lines_of_message sp by simp
  have "ai_advice (parse_learning_data
                (split_lines (snd (generate_learning_message sample_session two_line_advice))))
     = [0x61]"
    unfolding l parse_learning_data_def
      parse_loop_append [of _ "report_lines sample_session (resolved_total sample_session)
                                 @ [ai_marker @ [0x61]]" "[[0x62]]"]
      parse_loop_report_lines [OF c] Let_def
    by (simp add: parse_line_body [OF b] flush_section_simps s1)
  then show ?thesis using s2 by simp
qed

text \<open>
  C2, amended. When the advice has no line feed in it and does not contain the marker of
  the advice line, parsing the composed report gives exactly three sections, whose star
  strings are the star ratings of the three scores, each of five glyphs, and the advice
  that comes back is the advice trimmed.
\<close>

theorem report_round_trip:
  assumes "newline \<notin> set advice" and "\<not> contains advice ai_marker"
  shows "length (sections (parse_learning_data
                            (split_lines (snd (generate_learning_message d advice))))) = 3
    \<and> map stars (sections (parse_learning_data
                            (split_lines (snd (generate_learning_message d advice)))))
        = [get_star_rating (attitudeScore d), get_star_rating (effectivenessScore d),
           get_star_rating (concentrationScore d)]
    \<and> list_all (\<lambda>sec. stars sec \<noteq> [] \<and> length (stars sec) = 5)
        (sections (parse_learning_data
                     (split_lines (snd (generate_learning_message d advice)))))
    \<and> ai_advice (parse_learning_data
                   (split_lines (snd (generate_learning_message d advice))))
        = strip advice"
proof -
  have "newline \<notin> set (ai_marker @ advice)"
    using assms(1) by (simp add: newline_literals)
  then have "split_lines (ai_marker @ advice) = [ai_marker @ advice]"
    by (rule split_lines_no_newline)
  then have l: "split_lines (snd (generate_learning_message d advice))
      = report_lines d (resolved_total d) @ [ai_marker @ advice]"
    unfolding lines_of_message by (rule arg_cong)
  have g: "get_star_rating x \<noteq> []" for x
    by (rule get_star_rating_not_Nil)
  show ?thesis
    unfolding l parse_report_lines [OF assms(2)]
    by (simp add: stars_parsed length_get_star_rating g)
qed

text \<open>
  The theorem at the sample session and the advice \<^verbatim>\<open>" ok "\<close>.
\<close>

theorem report_round_trip_witness:
  "newline \<notin> set plain_advice \<and> \<not> contains plain_advice ai_marker
   \<and> length (sections (parse_learning_data
                         (split_lines (snd (generate_learning_message sample_session plain_advice))))) = 3
   \<and> map stars (sections (parse_learning_data
                         (split_lines (snd (generate_learning_message sample_session plain_advice)))))
      = [[0x2B50, 0x2B50, 0x2B50, 0x2B50, 0x2606], [0x2B50, 0x2B50, 0x2B50, 0x2B50, 0x2B50],
         [0x2B50, 0x2B50, 0x2B50, 0x2B50, 0x2606]]
   \<and> ai_advice (parse_learning_data
                   (split_lines (snd (generate_learning_message sample_session plain_advice))))
      = [0x6F, 0x6B]"
proof -
  have h1: "newline \<notin> set plain_advice"
    by (simp add: plain_advice_def newline_def)
  have h2: "\<not> contains plain_advice ai_marker"
    by (simp add: plain_advice_def ai_marker_def)
  have s: "strip plain_advice = [0x6F, 0x6B]"
    by (simp add: plain_advice_def strip_def lstrip_def rstrip_def py_isspace_def)
  have r: "get_star_rating 85 = [0x2B50, 0x2B50, 0x2B50, 0x2B50, 0x2606]"
       "get_star_rating 92 = [0x2B50, 0x2B50, 0x2B50, 0x2B50, 0x2B50]"
       "get_star_rating 70 = [0x2B50, 0x2B50, 0x2B50, 0x2B50, 0x2606]"
    by (simp_all add: get_star_rating_def filled_stars_def empty_stars_def py_round_def
        floor_rat_numeral_div filled_glyph_def empty_glyph_def Let_def eval_nat_numeral)
  show ?thesis
    using report_round_trip [OF h1 h2, of sample_session] h1 h2
    by (simp add: s r sample_session_def)
qed

end
